theory Spec2Isabelle
  imports Complex_Main "HOL-Library.AList"
begin

section \<open>Strings and numbers of the host language\<close>

text \<open>
  Strings are lists of 8-bit characters, which is how Node delivers header values
  (Latin-1). \<open>toLowerCase\<close> maps A-Z and the Latin-1 capitals to their small
  letters (adding 32 sets bit 5) and leaves every other character alone.
\<close>

fun toLowerChar :: "char \<Rightarrow> char" where
  "toLowerChar (Char b0 b1 b2 b3 b4 b5 b6 b7) =
     (let n = of_char (Char b0 b1 b2 b3 b4 b5 b6 b7) :: nat in
      if (65 \<le> n \<and> n \<le> 90) \<or> (192 \<le> n \<and> n \<le> 222 \<and> n \<noteq> 215)
      then Char b0 b1 b2 b3 b4 True b6 b7
      else Char b0 b1 b2 b3 b4 b5 b6 b7)"

definition toLowerCase :: "string \<Rightarrow> string" where
  "toLowerCase s = map toLowerChar s"

fun startsWith :: "string \<Rightarrow> string \<Rightarrow> bool" where
  "startsWith s [] = True"
| "startsWith [] (p # ps) = False"
| "startsWith (c # cs) (p # ps) = (c = p \<and> startsWith cs ps)"

text \<open>\<open>s.includes(p)\<close>: \<open>p\<close> occurs in \<open>s\<close> as a contiguous substring.\<close>

fun str_includes :: "string \<Rightarrow> string \<Rightarrow> bool" where
  "str_includes [] p = (p = [])"
| "str_includes (c # cs) p = (startsWith (c # cs) p \<or> str_includes cs p)"

text \<open>Decimal rendering of an integer, as a template literal interpolates it.\<close>

fun str_nat :: "nat \<Rightarrow> string" where
  "str_nat n = (if n < 10 then [''0123456789'' ! n]
                else str_nat (n div 10) @ [''0123456789'' ! (n mod 10)])"

declare str_nat.simps [simp del]

definition str_int :: "int \<Rightarrow> string" where
  "str_int i = (if i < 0 then CHR ''-'' # str_nat (nat (- i)) else str_nat (nat i))"


section \<open>The browser bundle\<close>

text \<open>
  The body of \<open>POST /api/bot\<close> is parsed JSON. The model gives it the shape in which
  the client-side collector builds it and the server reads it: every key the server
  reads, with the type of value the collector stores there. Any key may be missing
  (\<open>undefined\<close>) or \<open>null\<close>. A leaf value keeps the three cases apart, because
  \<open>!== undefined\<close> and template literals tell them apart; a nested object is an
  \<open>option\<close>, because the server only tests or dereferences it and \<open>null\<close> and
  \<open>undefined\<close> then behave alike. Integers are \<open>int\<close>; the two values that are not
  integers (\<open>devicePixelRatio\<close>, \<open>math.acos\<close>) are rationals, compared exactly.

  The server does not check this shape: \<open>express.json\<close> hands the handler whatever
  JSON the caller sent. A body with an entry of another type (a number where the
  collector stores a string, say) is not a value of \<open>browserData\<close>. What
  \<open>analyzeBotSignals\<close> does first with such a body is modelled apart, on parsed JSON,
  by \<open>extractCommonValues\<close> below.
\<close>

datatype 'a field = Undefined | Null | Val 'a

text \<open>\<open>obj?.key\<close>\<close>

definition getf :: "'r option \<Rightarrow> ('r \<Rightarrow> 'a field) \<Rightarrow> 'a field" where
  "getf obj key = (case obj of None \<Rightarrow> Undefined | Some r \<Rightarrow> key r)"

text \<open>\<open>obj?.key\<close> for a key that holds a nested object or an array\<close>

definition geto :: "'r option \<Rightarrow> ('r \<Rightarrow> 'b option) \<Rightarrow> 'b option" where
  "geto obj key = (case obj of None \<Rightarrow> None | Some r \<Rightarrow> key r)"

text \<open>Truthiness: \<open>undefined\<close>, \<open>null\<close>, \<open>false\<close>, \<open>0\<close> and \<open>''\<close> are falsy.\<close>

definition truthyStr :: "string field \<Rightarrow> bool" where
  "truthyStr x = (case x of Val s \<Rightarrow> s \<noteq> [] | _ \<Rightarrow> False)"

definition truthyNum :: "('a::zero) field \<Rightarrow> bool" where
  "truthyNum x = (case x of Val n \<Rightarrow> n \<noteq> 0 | _ \<Rightarrow> False)"

definition truthyBool :: "bool field \<Rightarrow> bool" where
  "truthyBool x = (case x of Val b \<Rightarrow> b | _ \<Rightarrow> False)"

text \<open>\<open>x === true\<close>\<close>

definition isTrue :: "bool field \<Rightarrow> bool" where
  "isTrue x = (x = Val True)"

text \<open>\<open>x || d\<close> on a string and on a number\<close>

definition strOr :: "string field \<Rightarrow> string \<Rightarrow> string" where
  "strOr x d = (case x of Val s \<Rightarrow> (if s \<noteq> [] then s else d) | _ \<Rightarrow> d)"

definition numOr0 :: "int field \<Rightarrow> int" where
  "numOr0 x = (case x of Val n \<Rightarrow> n | _ \<Rightarrow> 0)"

text \<open>
  \<open>x > c\<close> and \<open>x < c\<close> against a number: \<open>null\<close> converts to \<open>0\<close>,
  \<open>undefined\<close> to \<open>NaN\<close>, which makes every comparison false.
\<close>

definition gtNum :: "('a::{zero,ord}) field \<Rightarrow> 'a \<Rightarrow> bool" where
  "gtNum x c = (case x of Val n \<Rightarrow> n > c | Null \<Rightarrow> 0 > c | Undefined \<Rightarrow> False)"

definition ltNum :: "('a::{zero,ord}) field \<Rightarrow> 'a \<Rightarrow> bool" where
  "ltNum x c = (case x of Val n \<Rightarrow> n < c | Null \<Rightarrow> 0 < c | Undefined \<Rightarrow> False)"

text \<open>\<open>x === c\<close> against a number or a string\<close>

definition eqVal :: "'a field \<Rightarrow> 'a \<Rightarrow> bool" where
  "eqVal x c = (x = Val c)"

text \<open>\<open>`${x}`\<close>, given the rendering of a value that is there\<close>

definition strField :: "('a \<Rightarrow> string) \<Rightarrow> 'a field \<Rightarrow> string" where
  "strField render x =
     (case x of Undefined \<Rightarrow> ''undefined'' | Null \<Rightarrow> ''null'' | Val v \<Rightarrow> render v)"

record screen_data =
  width :: "int field"
  height :: "int field"
  colorDepth :: "int field"
  devicePixelRatio :: "rat field"

record window_data =
  innerWidth :: "int field"
  innerHeight :: "int field"
  outerWidth :: "int field"
  outerHeight :: "int field"

record navigator_data =
  userAgent :: "string field"
  language :: "string field"
  languages :: "string list option"
  platform :: "string field"
  vendor :: "string field"
  product :: "string field"
  appName :: "string field"
  webdriver :: "bool field"

record user_agent_data =
  platform :: "string field"

record timezone_data =
  timezone :: "string field"
  offset :: "int field"

record performance_data =
  navigationStart :: "int field"
  loadEventEnd :: "int field"
  jsHeapSizeLimit :: "int field"

record webgl_data =
  unmaskedRenderer :: "string field"
  renderer :: "string field"
  unmaskedVendor :: "string field"
  vendor :: "string field"
  extensions :: "string list option"
  error :: "string field"

text \<open>\<open>webgl2\<close>, \<open>audio\<close>, \<open>battery\<close> and \<open>keyboard\<close> are read for their \<open>error\<close> only.\<close>

record error_data =
  error :: "string field"

record canvas_data =
  hash :: "string field"
  error :: "string field"

record media_devices_data =
  audioinput :: "int field"
  audiooutput :: "int field"
  videoinput :: "int field"
  error :: "string field"

record speech_voices_data =
  count :: "int field"

record touch_data =
  maxTouchPoints :: "int field"
  touchEvent :: "bool field"

record gamepads_data =
  supported :: "bool field"

record document_data =
  hidden :: "bool field"

record math_data =
  acos :: "rat field"

record features_data =
  webdriver :: "bool field"
  phantom :: "bool field"
  nightmare :: "bool field"
  selenium :: "bool field"
  domAutomation :: "bool field"
  windowChrome :: "bool field"
  permissionsQuery :: "bool field"
  pluginsLength :: "int field"
  notifications :: "bool field"
  webRTC :: "bool field"
  indexedDB :: "bool field"
  localStorage :: "bool field"
  sessionStorage :: "bool field"
  serviceWorker :: "bool field"
  WebAssembly :: "bool field"
  bluetooth :: "bool field"
  usb :: "bool field"
  credentials :: "bool field"

record js_challenge =
  valid :: "bool field"
  solveTime :: "int field"
  reason :: "string field"

text \<open>
  \<open>plugins\<close> and \<open>fonts\<close> are arrays, read for their length; \<open>connection\<close> is read
  for its presence.
\<close>

record browserData =
  screen :: "screen_data option"
  window :: "window_data option"
  navigator :: "navigator_data option"
  userAgentData :: "user_agent_data option"
  timezone :: "timezone_data option"
  performance :: "performance_data option"
  webgl :: "webgl_data option"
  webgl2 :: "error_data option"
  canvas :: "canvas_data option"
  audio :: "error_data option"
  battery :: "error_data option"
  mediaDevices :: "media_devices_data option"
  speechVoices :: "speech_voices_data option"
  plugins :: "string list option"
  fonts :: "string list option"
  touch :: "touch_data option"
  gamepads :: "gamepads_data option"
  keyboard :: "error_data option"
  document :: "document_data option"
  math :: "math_data option"
  connection :: "unit option"
  features :: "features_data option"
  jsChallenge :: "js_challenge option"


section \<open>Request headers\<close>

text \<open>
  \<open>req.headers\<close>: lower-cased header names to string values. A header that is absent
  reads as \<open>undefined\<close>; \<open>undefined\<close> and the empty string are the falsy values.
\<close>

type_synonym headers = "string \<Rightarrow> string option"

text \<open>\<open>headers[k] || ''\<close>\<close>

definition headerOrEmpty :: "headers \<Rightarrow> string \<Rightarrow> string" where
  "headerOrEmpty headers k = (case headers k of None \<Rightarrow> [] | Some v \<Rightarrow> v)"

text \<open>Truthiness of \<open>headers[k]\<close>\<close>

definition headerTruthy :: "headers \<Rightarrow> string \<Rightarrow> bool" where
  "headerTruthy headers k = (case headers k of None \<Rightarrow> False | Some v \<Rightarrow> v \<noteq> [])"


section \<open>Header Evaluator: \<open>analyzeHeadersOnly\<close>\<close>

text \<open>
  A signal as the evaluators push it. The Header Evaluator's signals have no
  \<open>category\<close> key (\<open>None\<close>); the Signal Evaluator's always have one.
\<close>

record signal =
  name :: string
  detected :: bool
  weight :: int
  reason :: string
  category :: "string option"

record summary =
  totalChecks :: nat
  flagged :: nat
  passed :: nat

text \<open>
  The verdict object that the evaluators return and the handlers send. The keys
  \<open>code\<close>, \<open>reason\<close> and \<open>signalsByCategory\<close> are absent (\<open>None\<close>) from some of
  them; \<open>signalsByCategory\<close> keeps the insertion order of its keys.
\<close>

record analysis =
  verdict :: string
  score :: int
  maxScore :: int
  code :: "int option"
  confidence :: string
  reason :: "string option"
  signals :: "signal list"
  allSignals :: "signal list"
  signalsByCategory :: "(string \<times> signal list) list option"
  summary :: summary

text \<open>
  The closure \<open>addSignal\<close> of \<open>analyzeHeadersOnly\<close> pushes one signal and adds its
  weight to \<open>score\<close> when it is detected. The two variables it closes over,
  \<open>signals\<close> and \<open>score\<close>, are the state that is passed along.
\<close>

definition addSignalH ::
  "string \<Rightarrow> bool \<Rightarrow> int \<Rightarrow> string \<Rightarrow> string \<Rightarrow> signal list \<times> int \<Rightarrow> signal list \<times> int" where
  "addSignalH nm det w passReason failReason st =
     (if det
      then (fst st @ [\<lparr>name = nm, detected = True, weight = w, reason = failReason,
                   category = None\<rparr>], snd st + w)
      else (fst st @ [\<lparr>name = nm, detected = False, weight = w, reason = passReason,
                   category = None\<rparr>], snd st))"

definition botPatternsH :: "string list" where
  "botPatternsH =
    [''python'', ''curl'', ''wget'', ''axios'', ''node-fetch'', ''go-http'', ''java/'',
     ''libwww'', ''httpunit'', ''nutch'', ''phpcrawl'', ''msnbot'', ''jyxobot'',
     ''fast-webcrawler'', ''biglotron'', ''teoma'', ''convera'', ''gigablast'',
     ''ia_archiver'', ''webmon'', ''httrack'', ''grub.org'', ''netresearchserver'',
     ''speedy'', ''fluffy'', ''findlink'', ''panscient'', ''ips-agent'', ''yanga'',
     ''cyberpatrol'', ''postrank'', ''page2rss'', ''linkdex'', ''ezooms'', ''heritrix'',
     ''findthatfile'', ''europarchive.org'', ''mappydata'', ''eright'', ''apercite'',
     ''scrapy'', ''mechanize'', ''phantom'', ''casper'', ''selenium'', ''webdriver'',
     ''chrome-lighthouse'', ''pingdom'', ''phantomjs'', ''headlesschrome'',
     ''httpie'', ''postman'', ''insomnia'', ''rest-client'', ''okhttp'', ''apache-http'']"

text \<open>\<open>`${matchedBotPattern}`\<close>: the pattern found, or the text of \<open>undefined\<close>.\<close>

definition strPattern :: "string option \<Rightarrow> string" where
  "strPattern m = (case m of None \<Rightarrow> ''undefined'' | Some p \<Rightarrow> p)"

text \<open>The calls of \<open>addSignal\<close> in \<open>analyzeHeadersOnly\<close>, in the order of the source.\<close>

definition headerSteps :: "headers \<Rightarrow> (signal list \<times> int \<Rightarrow> signal list \<times> int) list" where
  "headerSteps headers =
    (let userAgent = headerOrEmpty headers ''user-agent'';
         userAgentLower = toLowerCase userAgent;
         matchedBotPattern = find (\<lambda>p. str_includes userAgentLower p) botPatternsH;
         accept = headerOrEmpty headers ''accept'';
         nonBrowserAccept = (accept \<noteq> [] \<and> \<not> str_includes accept ''text/html''
                              \<and> \<not> str_includes accept ''*/*'');
         hasSecFetch = (headerTruthy headers ''sec-fetch-dest''
                         \<or> headerTruthy headers ''sec-fetch-mode''
                         \<or> headerTruthy headers ''sec-fetch-site'')
     in
     [addSignalH ''noUserAgent'' (userAgent = []) 30
        ''User-Agent header present''
        ''No User-Agent header (very suspicious)'',
      addSignalH ''shortUserAgent'' (length userAgent > 0 \<and> length userAgent < 20) 15
        (''User-Agent length: '' @ str_nat (length userAgent) @ '' chars'')
        (''User-Agent too short: '' @ str_nat (length userAgent) @ '' chars''),
      addSignalH ''botUserAgent'' (matchedBotPattern \<noteq> None) 30
        ''User-Agent appears legitimate''
        (''Bot-like User-Agent pattern: '' @ strPattern matchedBotPattern),
      addSignalH ''headlessUA'' (str_includes userAgentLower ''headless'') 25
        ''No headless indicator in User-Agent''
        ''Headless mentioned in User-Agent'',
      addSignalH ''noAcceptHeader'' (\<not> headerTruthy headers ''accept'') 10
        ''Accept header present''
        ''Accept header missing'',
      addSignalH ''nonBrowserAccept'' nonBrowserAccept 10
        ''Accept header looks like browser''
        (''Non-browser Accept header: '' @ take 50 accept),
      addSignalH ''noAcceptLanguage'' (\<not> headerTruthy headers ''accept-language'') 15
        ''Accept-Language header present''
        ''Accept-Language header missing'',
      addSignalH ''noAcceptEncoding'' (\<not> headerTruthy headers ''accept-encoding'') 10
        ''Accept-Encoding header present''
        ''Accept-Encoding header missing'',
      addSignalH ''noSecFetch'' (\<not> hasSecFetch) 15
        ''Sec-Fetch headers present''
        ''Sec-Fetch headers missing (not a modern browser)'',
      addSignalH ''noSecChUa'' (\<not> headerTruthy headers ''sec-ch-ua'') 8
        ''Sec-CH-UA header present''
        ''Sec-CH-UA header missing'',
      addSignalH ''noConnection'' (\<not> headerTruthy headers ''connection'') 5
        ''Connection header present''
        ''Connection header missing'',
      addSignalH ''noUpgradeInsecure'' (\<not> headerTruthy headers ''upgrade-insecure-requests'') 5
        ''Upgrade-Insecure-Requests header present''
        ''Upgrade-Insecure-Requests header missing''])"

text \<open>Thresholds shared by both evaluators: \<open>>= 50\<close>, \<open>>= 25\<close>, else.\<close>

definition verdictOf :: "int \<Rightarrow> string" where
  "verdictOf normalizedScore =
     (if normalizedScore \<ge> 50 then ''bot''
      else if normalizedScore \<ge> 25 then ''suspicious'' else ''human'')"

definition confidenceOf :: "int \<Rightarrow> string" where
  "confidenceOf normalizedScore =
     (if normalizedScore \<ge> 50 then ''high''
      else if normalizedScore \<ge> 25 then ''medium'' else ''low'')"

definition analyzeHeadersOnly :: "headers \<Rightarrow> analysis" where
  "analyzeHeadersOnly headers =
    (let st = foldl (\<lambda>st step. step st) ([], 0) (headerSteps headers);
         sigs = fst st;
         normalizedScore = min (snd st) 100
     in \<lparr>verdict = verdictOf normalizedScore,
         score = normalizedScore,
         maxScore = 100,
         code = None,
         confidence = confidenceOf normalizedScore,
         reason = None,
         signals = filter detected sigs,
         allSignals = sigs,
         signalsByCategory = None,
         summary = \<lparr>totalChecks = length sigs,
                     flagged = length (filter detected sigs),
                     passed = length (filter (\<lambda>s. \<not> detected s) sigs)\<rparr>\<rparr>)"


section \<open>Signal Evaluator: \<open>analyzeBotSignals\<close>\<close>

type_synonym step = "signal list \<times> int \<Rightarrow> signal list \<times> int"

text \<open>The closure \<open>addSignal\<close> of \<open>analyzeBotSignals\<close>: as above, with a category.\<close>

definition addSignal ::
  "string \<Rightarrow> bool \<Rightarrow> int \<Rightarrow> string \<Rightarrow> string \<Rightarrow> string \<Rightarrow> step" where
  "addSignal nm det w passReason failReason cat st =
     (if det
      then (fst st @ [\<lparr>name = nm, detected = True, weight = w, reason = failReason,
                   category = Some cat\<rparr>], snd st + w)
      else (fst st @ [\<lparr>name = nm, detected = False, weight = w, reason = passReason,
                   category = Some cat\<rparr>], snd st))"

subsection \<open>The common values\<close>

definition userAgent_of :: "browserData \<Rightarrow> string" where
  "userAgent_of bd = strOr (getf (navigator bd) userAgent) []"

definition headerUA_of :: "headers \<Rightarrow> string" where
  "headerUA_of headers = headerOrEmpty headers ''user-agent''"

definition isChrome_of :: "browserData \<Rightarrow> bool" where
  "isChrome_of bd = str_includes (userAgent_of bd) ''Chrome''"

definition isSafari_of :: "browserData \<Rightarrow> bool" where
  "isSafari_of bd = (str_includes (userAgent_of bd) ''Safari'' \<and> \<not> isChrome_of bd)"

text \<open>
  \<open>/mobile|android|iphone|ipad/i.test(userAgent)\<close>: the patterns are ASCII letters, so
  ignoring case is matching against the lower-cased string.
\<close>

definition isMobileUA_of :: "browserData \<Rightarrow> bool" where
  "isMobileUA_of bd =
     (let u = toLowerCase (userAgent_of bd)
      in str_includes u ''mobile'' \<or> str_includes u ''android''
         \<or> str_includes u ''iphone'' \<or> str_includes u ''ipad'')"

definition platform_of :: "browserData \<Rightarrow> string" where
  "platform_of bd = strOr (getf (navigator bd) navigator_data.platform) []"

definition platformLower_of :: "browserData \<Rightarrow> string" where
  "platformLower_of bd = toLowerCase (platform_of bd)"

definition vendor_of :: "browserData \<Rightarrow> string" where
  "vendor_of bd = strOr (getf (navigator bd) navigator_data.vendor) []"

subsection \<open>Critical signals and the essential browser data\<close>

definition criticalSteps :: "browserData \<Rightarrow> step list" where
  "criticalSteps bd =
    (let webdriverDetected = (isTrue (getf (navigator bd) navigator_data.webdriver)
                               \<or> isTrue (getf (features bd) features_data.webdriver));
         jsChallengeValid = isTrue (getf (jsChallenge bd) valid)
     in
     [addSignal ''webdriver'' webdriverDetected 30
        ''navigator.webdriver is false''
        ''navigator.webdriver is true (automation detected)''
        ''automation'',
      addSignal ''phantom'' (truthyBool (getf (features bd) phantom)) 30
        ''PhantomJS not detected''
        ''PhantomJS detected''
        ''automation'',
      addSignal ''nightmare'' (truthyBool (getf (features bd) nightmare)) 30
        ''Nightmare.js not detected''
        ''Nightmare.js detected''
        ''automation'',
      addSignal ''selenium'' (truthyBool (getf (features bd) selenium)) 30
        ''Selenium markers not detected''
        ''Selenium markers detected''
        ''automation'',
      addSignal ''domAutomation'' (truthyBool (getf (features bd) domAutomation)) 30
        ''DOM automation attribute not detected''
        ''DOM automation attribute detected''
        ''automation'',
      addSignal ''jsChallengeFailed'' (\<not> jsChallengeValid) 35
        (''JS challenge passed (solved in ''
           @ str_int (numOr0 (getf (jsChallenge bd) solveTime)) @ ''ms)'')
        (case jsChallenge bd of
           Some c \<Rightarrow> ''JS challenge failed: '' @ strOr (js_challenge.reason c) ''incorrect answer''
         | None \<Rightarrow> ''No JS challenge completed (curl/bot)'')
        ''automation'']
     @ (if truthyBool (getf (jsChallenge bd) valid)
        then [addSignal ''jsChallengeTimingSuspicious''
                (gtNum (getf (jsChallenge bd) solveTime) 30000) 10
                (''Challenge solved in ''
                   @ strField str_int (getf (jsChallenge bd) solveTime) @ ''ms'')
                (''Challenge took too long: ''
                   @ strField str_int (getf (jsChallenge bd) solveTime)
                   @ ''ms (possible manual solving)'')
                ''timing'']
        else []))"

definition essentialSteps :: "browserData \<Rightarrow> step list" where
  "essentialSteps bd =
    (let hasScreenData = (gtNum (getf (screen bd) width) 0 \<and> gtNum (getf (screen bd) height) 0);
         hasWindowData = (gtNum (getf (window bd) innerWidth) 0
                           \<or> gtNum (getf (window bd) outerWidth) 0);
         hasNavigatorData = (truthyStr (getf (navigator bd) userAgent)
                              \<and> truthyStr (getf (navigator bd) language));
         hasTimezoneData = (truthyStr (getf (browserData.timezone bd) timezone_data.timezone)
                             \<or> getf (browserData.timezone bd) offset \<noteq> Undefined);
         noBrowserDataAtAll = (screen bd = None \<and> window bd = None \<and> navigator bd = None)
     in
     [addSignal ''noBrowserData'' noBrowserDataAtAll 50
        ''Browser data present''
        ''No browser data submitted (request without JS execution)''
        ''automation'',
      addSignal ''noScreenData'' (\<not> hasScreenData \<and> \<not> noBrowserDataAtAll) 25
        (''Screen data available: '' @ strField str_int (getf (screen bd) width)
           @ ''x'' @ strField str_int (getf (screen bd) height))
        ''Screen dimensions missing or zero''
        ''browser-features'',
      addSignal ''noWindowData'' (\<not> hasWindowData \<and> \<not> noBrowserDataAtAll) 20
        ''Window data available''
        ''Window dimensions missing''
        ''browser-features'',
      addSignal ''noNavigatorData'' (\<not> hasNavigatorData \<and> \<not> noBrowserDataAtAll) 25
        ''Navigator data available''
        ''Navigator userAgent or language missing''
        ''browser-features'',
      addSignal ''noTimezoneData'' (\<not> hasTimezoneData \<and> \<not> noBrowserDataAtAll) 15
        ''Timezone data available''
        ''Timezone information missing''
        ''browser-features''])"


subsection \<open>Strong and medium signals\<close>

text \<open>\<open>features?.pluginsLength ?? plugins?.length ?? 0\<close>\<close>

definition pluginsLength_of :: "browserData \<Rightarrow> int" where
  "pluginsLength_of bd =
     (case getf (features bd) pluginsLength of
        Val n \<Rightarrow> n
      | _ \<Rightarrow> (case plugins bd of Some ps \<Rightarrow> int (length ps) | None \<Rightarrow> 0))"

text \<open>\<open>webgl?.unmaskedRenderer || webgl?.renderer || ''\<close>, and the same for the vendor\<close>

definition webglRenderer_of :: "browserData \<Rightarrow> string" where
  "webglRenderer_of bd =
     strOr (getf (webgl bd) unmaskedRenderer) (strOr (getf (webgl bd) renderer) [])"

definition webglVendor_of :: "browserData \<Rightarrow> string" where
  "webglVendor_of bd =
     strOr (getf (webgl bd) unmaskedVendor) (strOr (getf (webgl bd) webgl_data.vendor) [])"

text \<open>\<open>`${s || d}`\<close> on a string\<close>

definition orText :: "string \<Rightarrow> string \<Rightarrow> string" where
  "orText s d = (if s \<noteq> [] then s else d)"

definition strongSteps :: "browserData \<Rightarrow> step list" where
  "strongSteps bd =
    (let pluginsLength = pluginsLength_of bd;
         languagesLength = (case geto (navigator bd) languages of
                              Some ls \<Rightarrow> length ls | None \<Rightarrow> 0);
         hasLanguages = (languagesLength > 0)
     in
     [addSignal ''noPlugins'' (pluginsLength = 0) 15
        (str_int pluginsLength @ '' plugins detected'')
        ''No browser plugins detected''
        ''browser-features'',
      addSignal ''noLanguages'' (\<not> hasLanguages) 15
        (str_nat languagesLength @ '' languages configured'')
        ''navigator.languages is empty''
        ''browser-features'']
     @ (if isChrome_of bd
        then [addSignal ''missingChrome'' (\<not> truthyBool (getf (features bd) windowChrome)) 20
                ''window.chrome object present''
                ''Chrome UA but window.chrome missing''
                ''consistency'']
        else [])
     @ [addSignal ''headlessUA'' (str_includes (toLowerCase (userAgent_of bd)) ''headless'') 25
          ''No headless indicator in User-Agent''
          ''Headless mentioned in User-Agent''
          ''automation''])"

definition mediumSteps :: "browserData \<Rightarrow> step list" where
  "mediumSteps bd =
    (let webglRenderer = webglRenderer_of bd;
         webglRendererLower = toLowerCase webglRenderer;
         isSoftwareRenderer = (str_includes webglRendererLower ''swiftshader''
                                \<or> str_includes webglRendererLower ''llvmpipe''
                                \<or> str_includes webglRendererLower ''mesa'');
         noWebGLRenderer = (webglRenderer = [] \<and> webgl bd \<noteq> None
                             \<and> \<not> truthyStr (getf (webgl bd) webgl_data.error));
         webglVendor = webglVendor_of bd;
         isSoftwareVendor = (str_includes (toLowerCase webglVendor) ''brian paul''
                              \<or> str_includes (toLowerCase webglVendor) ''mesa'');
         webglExtensions = (case geto (webgl bd) extensions of Some es \<Rightarrow> es | None \<Rightarrow> []);
         hasWebGLExtensions = (length webglExtensions > 0);
         screenWidth = numOr0 (getf (screen bd) width);
         screenHeight = numOr0 (getf (screen bd) height);
         innerW = numOr0 (getf (window bd) innerWidth);
         outerW = numOr0 (getf (window bd) outerWidth);
         innerH = numOr0 (getf (window bd) innerHeight);
         outerH = numOr0 (getf (window bd) outerHeight);
         noWindowChrome = (outerW > 0 \<and> innerW > 0 \<and> outerW = innerW \<and> outerH = innerH)
     in
     [addSignal ''noPermissionsAPI'' (\<not> truthyBool (getf (features bd) permissionsQuery)) 10
        ''Permissions API available''
        ''Permissions API not available''
        ''browser-features'',
      addSignal ''softwareRenderer'' isSoftwareRenderer 20
        (''Hardware renderer: '' @ orText webglRenderer ''detected'')
        (''Software renderer detected: '' @ webglRenderer)
        ''webgl'',
      addSignal ''noWebGLRenderer'' noWebGLRenderer 10
        (''WebGL renderer: '' @ orText webglRenderer ''available'')
        ''WebGL available but no renderer info''
        ''webgl'',
      addSignal ''softwareVendor'' isSoftwareVendor 15
        (''WebGL vendor: '' @ orText webglVendor ''hardware'')
        (''Software WebGL vendor: '' @ webglVendor)
        ''webgl'',
      addSignal ''noWebGLExtensions'' (\<not> hasWebGLExtensions) 8
        (str_nat (length webglExtensions) @ '' WebGL extensions available'')
        ''No WebGL extensions available''
        ''webgl'',
      addSignal ''zeroScreenSize'' (screenWidth = 0 \<or> screenHeight = 0) 15
        (''Screen: '' @ str_int screenWidth @ ''x'' @ str_int screenHeight)
        ''Screen dimensions are zero''
        ''screen'',
      addSignal ''defaultScreenSize'' (screenWidth = 800 \<and> screenHeight = 600) 10
        (''Screen: '' @ str_int screenWidth @ ''x'' @ str_int screenHeight)
        ''Default 800x600 screen (common in bots)''
        ''screen'',
      addSignal ''noWindowChrome'' noWindowChrome 10
        (''Window chrome detected (outer: '' @ str_int outerW @ ''x'' @ str_int outerH
           @ '', inner: '' @ str_int innerW @ ''x'' @ str_int innerH @ '')'')
        ''innerWidth/Height equals outerWidth/Height (no browser chrome)''
        ''screen'',
      addSignal ''noNotifications'' (\<not> truthyBool (getf (features bd) notifications)) 5
        ''Notification API available''
        ''Notification API not available''
        ''browser-features'',
      addSignal ''noWebRTC'' (\<not> truthyBool (getf (features bd) webRTC)) 8
        ''WebRTC available''
        ''WebRTC not available''
        ''browser-features'',
      addSignal ''noIndexedDB'' (\<not> truthyBool (getf (features bd) indexedDB)) 8
        ''IndexedDB available''
        ''IndexedDB not available''
        ''browser-features'',
      addSignal ''noLocalStorage'' (\<not> truthyBool (getf (features bd) localStorage)) 10
        ''localStorage available''
        ''localStorage not available''
        ''browser-features'',
      addSignal ''noSessionStorage'' (\<not> truthyBool (getf (features bd) sessionStorage)) 10
        ''sessionStorage available''
        ''sessionStorage not available''
        ''browser-features''])"


subsection \<open>Weak signals\<close>

text \<open>
  \<open>`${x}`\<close> on a number that need not be an integer. An integer prints in decimal;
  for any other value the digits are those of the host's number-to-string conversion,
  \<open>fmt\<close>, which the evaluator takes as a parameter.
\<close>

definition str_num :: "(rat \<Rightarrow> string) \<Rightarrow> rat \<Rightarrow> string" where
  "str_num fmt r = (if r = of_int \<lfloor>r\<rfloor> then str_int \<lfloor>r\<rfloor> else fmt r)"

definition weakSteps :: "(rat \<Rightarrow> string) \<Rightarrow> browserData \<Rightarrow> step list" where
  "weakSteps fmt bd =
    (let hasBattery = (battery bd \<noteq> None \<and> \<not> truthyStr (getf (battery bd) error_data.error));
         hasMediaDevices = (mediaDevices bd \<noteq> None
                             \<and> \<not> truthyStr (getf (mediaDevices bd) media_devices_data.error));
         totalDevices = numOr0 (getf (mediaDevices bd) audioinput)
                        + numOr0 (getf (mediaDevices bd) audiooutput)
                        + numOr0 (getf (mediaDevices bd) videoinput);
         touchMismatch = (gtNum (getf (touch bd) maxTouchPoints) 0
                           \<and> \<not> truthyBool (getf (touch bd) touchEvent));
         voiceCount = numOr0 (getf (speechVoices bd) count);
         fontsCount = (case fonts bd of Some fs \<Rightarrow> length fs | None \<Rightarrow> 0);
         hasCanvas = (truthyStr (getf (canvas bd) hash)
                       \<and> \<not> truthyStr (getf (canvas bd) canvas_data.error));
         dpr = getf (screen bd) devicePixelRatio;
         unusualDPR = (truthyNum dpr \<and> (ltNum dpr (1 / 2) \<or> gtNum dpr 4));
         colorDepthV = getf (screen bd) colorDepth;
         navInconsistent = (eqVal (getf (navigator bd) appName) ''Netscape''
                             \<and> \<not> eqVal (getf (navigator bd) product) ''Gecko'')
     in
     [addSignal ''noBattery'' (\<not> hasBattery) 2
        ''Battery API available''
        ''Battery API not available''
        ''browser-features'',
      addSignal ''noMediaDevices'' (\<not> hasMediaDevices) 5
        ''Media devices API available''
        ''Media devices not available''
        ''browser-features'']
     @ (if hasMediaDevices
        then [addSignal ''zeroMediaDevices'' (totalDevices = 0) 8
                (str_int totalDevices @ '' media devices detected'')
                ''Zero media devices detected''
                ''browser-features'']
        else [])
     @ (if isMobileUA_of bd
        then [addSignal ''mobileNoTouch'' (eqVal (getf (touch bd) maxTouchPoints) 0) 15
                (''Touch support: '' @ strField str_int (getf (touch bd) maxTouchPoints)
                   @ '' touch points'')
                ''Mobile UA but no touch support''
                ''consistency'']
        else [])
     @ (if \<not> isMobileUA_of bd
        then [addSignal ''desktopTouchMismatch'' touchMismatch 5
                ''Touch configuration consistent''
                ''Desktop UA with touch points but no touch events''
                ''consistency'']
        else [])
     @ [addSignal ''noSpeechVoices'' (voiceCount = 0) 3
          (str_int voiceCount @ '' speech voices available'')
          ''No speech synthesis voices''
          ''browser-features'']
     @ (if isChrome_of bd
        then [addSignal ''noConnectionAPI'' (connection bd = None) 5
                ''Network Information API available''
                ''Network Information API not available in Chrome''
                ''browser-features'']
        else [])
     @ [addSignal ''noFonts'' (fontsCount = 0) 10
          (str_nat fontsCount @ '' fonts detected'')
          ''No fonts detected''
          ''browser-features'',
        addSignal ''fewFonts'' (fontsCount > 0 \<and> fontsCount < 5) 5
          (str_nat fontsCount @ '' fonts detected'')
          (''Only '' @ str_nat fontsCount @ '' fonts detected (minimal)'')
          ''browser-features'',
        addSignal ''noCanvasHash'' (\<not> hasCanvas) 8
          ''Canvas fingerprint available''
          ''Canvas fingerprint unavailable''
          ''browser-features'',
        addSignal ''audioError'' (truthyStr (getf (audio bd) error_data.error)) 5
          ''Audio context working''
          ''Audio context error''
          ''browser-features'']
     @ (if isChrome_of bd
        then [addSignal ''noPerformanceMemory''
                (\<not> truthyNum (getf (performance bd) jsHeapSizeLimit)) 5
                ''performance.memory available''
                ''performance.memory not available in Chrome''
                ''browser-features'']
        else [])
     @ [addSignal ''documentHidden'' (isTrue (getf (document bd) hidden)) 8
          ''Document visible during fingerprinting''
          ''Document was hidden during fingerprinting''
          ''browser-features'',
        addSignal ''unusualDPR'' unusualDPR 5
          (''devicePixelRatio: '' @ strField (str_num fmt) dpr)
          (''Unusual devicePixelRatio: '' @ strField (str_num fmt) dpr)
          ''screen'',
        addSignal ''lowColorDepth'' (truthyNum colorDepthV \<and> ltNum colorDepthV 24) 5
          (''Color depth: '' @ strField str_int colorDepthV)
          (''Low color depth: '' @ strField str_int colorDepthV)
          ''screen'',
        addSignal ''navigatorInconsistency'' navInconsistent 5
          ''Navigator properties consistent''
          ''Navigator properties inconsistent''
          ''consistency'',
        addSignal ''noGamepadAPI'' (\<not> truthyBool (getf (gamepads bd) supported)) 2
          ''Gamepad API supported''
          ''Gamepad API not supported''
          ''browser-features'',
        addSignal ''keyboardAPIError'' (truthyStr (getf (keyboard bd) error_data.error)) 5
          ''Keyboard API working''
          ''Keyboard API error (possible automation)''
          ''browser-features'',
        addSignal ''noServiceWorker'' (\<not> truthyBool (getf (features bd) serviceWorker)) 3
          ''Service Worker supported''
          ''Service Worker not supported''
          ''browser-features'',
        addSignal ''noWebAssembly'' (\<not> truthyBool (getf (features bd) WebAssembly)) 5
          ''WebAssembly supported''
          ''WebAssembly not supported''
          ''browser-features'',
        addSignal ''noBluetooth'' (\<not> truthyBool (getf (features bd) bluetooth)) 2
          ''Bluetooth API available''
          ''Bluetooth API not available''
          ''browser-features'',
        addSignal ''noUSB'' (\<not> truthyBool (getf (features bd) usb)) 2
          ''USB API available''
          ''USB API not available''
          ''browser-features'',
        addSignal ''noCredentials'' (\<not> truthyBool (getf (features bd) credentials)) 3
          ''Credentials API available''
          ''Credentials API not available''
          ''browser-features''])"


subsection \<open>Header-based signals\<close>

definition botPatterns :: "string list" where
  "botPatterns =
    [''python'', ''curl'', ''wget'', ''axios'', ''node-fetch'', ''go-http'', ''java/'',
     ''libwww'', ''httpunit'', ''nutch'', ''phpcrawl'', ''msnbot'', ''jyxobot'',
     ''fast-webcrawler'', ''biglotron'', ''teoma'', ''convera'', ''gigablast'',
     ''ia_archiver'', ''webmon'', ''httrack'', ''grub.org'', ''netresearchserver'',
     ''speedy'', ''fluffy'', ''findlink'', ''panscient'', ''ips-agent'', ''yanga'',
     ''cyberpatrol'', ''postrank'', ''page2rss'', ''linkdex'', ''ezooms'', ''heritrix'',
     ''findthatfile'', ''europarchive.org'', ''mappydata'', ''eright'', ''apercite'',
     ''scrapy'', ''mechanize'', ''phantom'', ''casper'', ''selenium'', ''webdriver'',
     ''chrome-lighthouse'', ''pingdom'', ''phantomjs'', ''headlesschrome'']"

definition headerBasedSteps :: "browserData \<Rightarrow> headers \<Rightarrow> step list" where
  "headerBasedSteps bd headers =
    (let headerUA = headerUA_of headers;
         headerUALower = toLowerCase headerUA;
         matchedBotPattern = find (\<lambda>p. str_includes headerUALower p) botPatterns;
         hasSecFetch = (headerTruthy headers ''sec-fetch-dest''
                         \<or> headerTruthy headers ''sec-fetch-mode'')
     in
     [addSignal ''noAcceptLanguage'' (\<not> headerTruthy headers ''accept-language'') 10
        ''Accept-Language header present''
        ''Accept-Language header missing''
        ''headers'',
      addSignal ''noAcceptHeader'' (\<not> headerTruthy headers ''accept'') 5
        ''Accept header present''
        ''Accept header missing''
        ''headers'',
      addSignal ''botUserAgent'' (matchedBotPattern \<noteq> None) 25
        ''User-Agent appears legitimate''
        (''Bot-like User-Agent pattern: '' @ strPattern matchedBotPattern)
        ''headers'',
      addSignal ''shortUserAgent'' (length headerUA < 20) 15
        (''User-Agent length: '' @ str_nat (length headerUA) @ '' chars'')
        (''User-Agent too short: '' @ str_nat (length headerUA) @ '' chars'')
        ''headers'',
      addSignal ''noSecFetch'' (\<not> hasSecFetch) 8
        ''Sec-Fetch headers present''
        ''Sec-Fetch headers missing''
        ''headers'']
     @ (if isChrome_of bd
        then [addSignal ''noSecChUa'' (\<not> headerTruthy headers ''sec-ch-ua'') 8
                ''Sec-CH-UA header present''
                ''Sec-CH-UA header missing in Chrome''
                ''headers'']
        else [])
     @ [addSignal ''noConnectionHeader'' (\<not> headerTruthy headers ''connection'') 3
          ''Connection header present''
          ''Connection header missing''
          ''headers'',
        addSignal ''noCacheControl'' (\<not> headerTruthy headers ''cache-control'') 2
          ''Cache-Control header present''
          ''Cache-Control header missing''
          ''headers''])"

subsection \<open>Consistency checks\<close>

text \<open>\<open>s.split(sep)[0]\<close>: the part of \<open>s\<close> before the first \<open>sep\<close>.\<close>

definition splitFirst :: "char \<Rightarrow> string \<Rightarrow> string" where
  "splitFirst sep s = takeWhile (\<lambda>c. c \<noteq> sep) s"

definition langMismatch_of :: "browserData \<Rightarrow> headers \<Rightarrow> bool" where
  "langMismatch_of bd headers =
    (let acceptLanguage = headerOrEmpty headers ''accept-language'';
         navigatorLanguage = strOr (getf (navigator bd) language) []
     in if acceptLanguage \<noteq> [] \<and> navigatorLanguage \<noteq> []
        then (let headerLang = toLowerCase (splitFirst CHR ''-'' (splitFirst CHR '','' acceptLanguage));
                  navLang = toLowerCase (splitFirst CHR ''-'' navigatorLanguage)
              in headerLang \<noteq> navLang)
        else False)"

text \<open>The pair \<open>(platformMismatch, platformMismatchReason)\<close> after the \<open>if\<close> chain.\<close>

definition platformMismatch_of :: "browserData \<Rightarrow> bool \<times> string" where
  "platformMismatch_of bd =
    (let userAgent = userAgent_of bd; platformLower = platformLower_of bd
     in if str_includes userAgent ''Windows'' \<and> \<not> str_includes platformLower ''win''
        then (True, ''UA says Windows but platform differs'')
        else if str_includes userAgent ''Mac'' \<and> \<not> str_includes platformLower ''mac''
        then (True, ''UA says Mac but platform differs'')
        else if str_includes userAgent ''Linux'' \<and> \<not> str_includes platformLower ''linux''
                \<and> \<not> isMobileUA_of bd
        then (True, ''UA says Linux but platform differs'')
        else (False, []))"

definition tzInconsistent_of :: "browserData \<Rightarrow> bool" where
  "tzInconsistent_of bd =
    (let tz = strOr (getf (browserData.timezone bd) timezone_data.timezone) [];
         timezoneOffset = getf (browserData.timezone bd) offset
     in if tz \<noteq> [] \<and> timezoneOffset \<noteq> Undefined
        then (if str_includes tz ''America/'' \<and> ltNum timezoneOffset 0 then True
              else if str_includes tz ''Europe/'' \<and> gtNum timezoneOffset 60 then True
              else False)
        else False)"

definition clientHintsMismatch_of :: "browserData \<Rightarrow> bool" where
  "clientHintsMismatch_of bd =
    (if truthyStr (getf (userAgentData bd) user_agent_data.platform)
        \<and> truthyStr (getf (navigator bd) navigator_data.platform)
     then (let uadPlatform =
                 toLowerCase (strOr (getf (userAgentData bd) user_agent_data.platform) [])
           in if str_includes (platformLower_of bd) ''win'' \<and> \<not> str_includes uadPlatform ''win''
              then True else False)
     else False)"

text \<open>The pair \<open>(vendorMismatch, vendorMismatchReason)\<close> after the \<open>if\<close> chain.\<close>

definition vendorMismatch_of :: "browserData \<Rightarrow> bool \<times> string" where
  "vendorMismatch_of bd =
    (if isChrome_of bd \<and> \<not> str_includes (vendor_of bd) ''Google''
     then (True, ''Chrome UA but vendor not Google'')
     else if isSafari_of bd \<and> \<not> str_includes (vendor_of bd) ''Apple''
     then (True, ''Safari UA but vendor not Apple'')
     else (False, []))"

definition consistencySteps :: "browserData \<Rightarrow> headers \<Rightarrow> step list" where
  "consistencySteps bd headers =
    (let headerUA = headerUA_of headers;
         uaMismatch = (headerUA \<noteq> [] \<and> truthyStr (getf (navigator bd) userAgent)
                        \<and> \<not> eqVal (getf (navigator bd) userAgent) headerUA);
         productValue = getf (navigator bd) product
     in
     [addSignal ''uaMismatch'' uaMismatch 20
        ''User-Agent header matches navigator.userAgent''
        ''User-Agent header differs from navigator.userAgent''
        ''consistency'',
      addSignal ''languageMismatch'' (langMismatch_of bd headers) 10
        ''Accept-Language matches navigator.language''
        ''Accept-Language differs from navigator.language''
        ''consistency'',
      addSignal ''platformMismatch'' (fst (platformMismatch_of bd)) 15
        (''Platform consistent: '' @ platform_of bd)
        (orText (snd (platformMismatch_of bd)) ''Platform mismatch detected'')
        ''consistency'',
      addSignal ''timezoneInconsistent'' (tzInconsistent_of bd) 10
        (''Timezone consistent: ''
           @ strOr (getf (browserData.timezone bd) timezone_data.timezone) []
           @ '' (offset: '' @ strField str_int (getf (browserData.timezone bd) offset) @ '')'')
        ''Timezone name and offset inconsistent''
        ''consistency'',
      addSignal ''clientHintsMismatch'' (clientHintsMismatch_of bd) 15
        ''Client Hints consistent with navigator''
        ''Client Hints platform differs from navigator.platform''
        ''consistency'',
      addSignal ''vendorMismatch'' (fst (vendorMismatch_of bd)) 10
        (''Vendor consistent: '' @ vendor_of bd)
        (orText (snd (vendorMismatch_of bd)) ''Vendor mismatch'')
        ''consistency'',
      addSignal ''productInconsistent'' (\<not> eqVal productValue ''Gecko'') 3
        ''navigator.product is Gecko''
        (''navigator.product is '' @ strField (\<lambda>s. s) productValue @ '', expected Gecko'')
        ''consistency''])"


subsection \<open>Timing, math fingerprint and WebGL2\<close>

text \<open>\<open>loadTime\<close>: \<open>null\<close> (\<open>None\<close>) unless both timestamps are truthy.\<close>

definition loadTime_of :: "browserData \<Rightarrow> int option" where
  "loadTime_of bd =
    (if truthyNum (getf (performance bd) navigationStart)
        \<and> truthyNum (getf (performance bd) loadEventEnd)
     then Some (numOr0 (getf (performance bd) loadEventEnd)
                - numOr0 (getf (performance bd) navigationStart))
     else None)"

definition strLoadTime :: "int option \<Rightarrow> string" where
  "strLoadTime t = (case t of None \<Rightarrow> ''null'' | Some n \<Rightarrow> str_int n)"

definition expectedAcos :: rat where
  "expectedAcos = 10471975511965979 / 10000000000000000"

definition fingerprintSteps :: "browserData \<Rightarrow> step list" where
  "fingerprintSteps bd =
    (let loadTime = loadTime_of bd;
         mathAcos = getf (math bd) acos;
         mathSuspicious = (case mathAcos of
                             Val a \<Rightarrow> a \<noteq> 0 \<and> \<bar>a - expectedAcos\<bar> > 1 / 10000000
                           | _ \<Rightarrow> False);
         hasWebGL2 = (webgl2 bd \<noteq> None \<and> \<not> truthyStr (getf (webgl2 bd) error_data.error))
     in
     [addSignal ''negativeLoadTime'' (case loadTime of Some t \<Rightarrow> t < 0 | None \<Rightarrow> False) 20
        (''Page load time: '' @ strLoadTime loadTime @ ''ms'')
        ''Negative page load time (timing manipulation)''
        ''timing'',
      addSignal ''zeroLoadTime'' (loadTime = Some 0) 15
        (''Page load time: '' @ strLoadTime loadTime @ ''ms'')
        ''Zero page load time''
        ''timing'',
      addSignal ''mathInconsistent'' mathSuspicious 10
        ''Math functions consistent''
        ''Math function results inconsistent (possible spoofing)''
        ''fingerprint'',
      addSignal ''noWebGL2'' (\<not> hasWebGL2 \<and> isChrome_of bd) 3
        ''WebGL2 available''
        ''WebGL2 not available''
        ''webgl''])"

subsection \<open>The evaluator\<close>

text \<open>All calls of \<open>addSignal\<close> in \<open>analyzeBotSignals\<close>, in the order of the source.\<close>

definition signalSteps :: "(rat \<Rightarrow> string) \<Rightarrow> browserData \<Rightarrow> headers \<Rightarrow> step list" where
  "signalSteps fmt bd headers =
     criticalSteps bd @ essentialSteps bd @ strongSteps bd @ mediumSteps bd
     @ weakSteps fmt bd @ headerBasedSteps bd headers @ consistencySteps bd headers
     @ fingerprintSteps bd"

text \<open>
  The grouping loop: \<open>acc\<close> is \<open>signalsByCategory\<close>, an object whose keys keep
  their insertion order.
\<close>

fun groupByCategory ::
  "signal list \<Rightarrow> (string \<times> signal list) list \<Rightarrow> (string \<times> signal list) list" where
  "groupByCategory [] acc = acc"
| "groupByCategory (s # ss) acc =
     (let cat = (case category s of Some c \<Rightarrow> (if c \<noteq> [] then c else ''general'')
                 | None \<Rightarrow> ''general'')
      in groupByCategory ss
           (if map_of acc cat = None then acc @ [(cat, [s])]
            else map (\<lambda>(k, v). if k = cat then (k, v @ [s]) else (k, v)) acc))"

definition analyzeBotSignals :: "(rat \<Rightarrow> string) \<Rightarrow> browserData \<Rightarrow> headers \<Rightarrow> analysis" where
  "analyzeBotSignals fmt bd headers =
    (let st = foldl (\<lambda>st step. step st) ([], 0) (signalSteps fmt bd headers);
         sigs = fst st;
         normalizedScore = min (snd st) 100
     in \<lparr>verdict = verdictOf normalizedScore,
         score = normalizedScore,
         maxScore = 100,
         code = None,
         confidence = confidenceOf normalizedScore,
         reason = None,
         signals = filter detected sigs,
         allSignals = sigs,
         signalsByCategory = Some (groupByCategory sigs []),
         summary = \<lparr>totalChecks = length sigs,
                     flagged = length (filter detected sigs),
                     passed = length (filter (\<lambda>s. \<not> detected s) sigs)\<rparr>\<rparr>)"


subsection \<open>The common values of a body that is any JSON\<close>

text \<open>
  The first statements of \<open>analyzeBotSignals\<close> (\<open>// Extract common values\<close>), read on
  the body as \<open>express.json\<close> delivers it: any parsed JSON, with no shape assumed. An
  object is the list of its entries, keys distinct, as \<open>JSON.parse\<close> builds it;
  \<open>JUndefined\<close> is what reading a missing key gives.
\<close>

datatype json = JUndefined | JNull | JBool bool | JNum rat | JStr string
  | JArr "json list" | JObj "(string \<times> json) list"

text \<open>
  What a method call on a value without that method raises. Neither
  \<open>analyzeBotSignals\<close> nor the handler of \<open>POST /api/bot\<close> has a \<open>try\<close>: the
  exception leaves both, and no verdict is returned.
\<close>

datatype exception = TypeError

definition jsTruthy :: "json \<Rightarrow> bool" where
  "jsTruthy x = (case x of JUndefined \<Rightarrow> False | JNull \<Rightarrow> False | JBool b \<Rightarrow> b
                 | JNum r \<Rightarrow> r \<noteq> 0 | JStr s \<Rightarrow> s \<noteq> [] | JArr xs \<Rightarrow> True | JObj kvs \<Rightarrow> True)"

text \<open>
  \<open>obj?.key\<close>, for the keys read here (\<open>navigator\<close>, \<open>userAgent\<close>, \<open>platform\<close>,
  \<open>vendor\<close>): none of them is a property of a string, an array, a number or a boolean,
  so only an object can hold one.
\<close>

definition jsGet :: "json \<Rightarrow> string \<Rightarrow> json" where
  "jsGet obj key =
     (case obj of
        JObj kvs \<Rightarrow> (case map_of kvs key of Some x \<Rightarrow> x | None \<Rightarrow> JUndefined)
      | _ \<Rightarrow> JUndefined)"

text \<open>\<open>x || d\<close>\<close>

definition jsOr :: "json \<Rightarrow> json \<Rightarrow> json" where
  "jsOr x d = (if jsTruthy x then x else d)"

text \<open>
  The conversion to a string that \<open>RegExp.prototype.test\<close> applies to its argument. An
  integer below \<open>10\<^sup>2\<^sup>1\<close> prints in decimal; every other number is rendered by the host's
  conversion \<open>fmt\<close>. An array prints its elements joined by commas, \<open>null\<close> and
  \<open>undefined\<close> as nothing.
\<close>

fun joinComma :: "string list \<Rightarrow> string" where
  "joinComma [] = []"
| "joinComma [s] = s"
| "joinComma (s # t # rest) = s @ '','' @ joinComma (t # rest)"

fun jsToString :: "(rat \<Rightarrow> string) \<Rightarrow> json \<Rightarrow> string" where
  "jsToString fmt JUndefined = ''undefined''"
| "jsToString fmt JNull = ''null''"
| "jsToString fmt (JBool b) = (if b then ''true'' else ''false'')"
| "jsToString fmt (JNum r) =
     (if r = of_int \<lfloor>r\<rfloor> \<and> \<bar>r\<bar> < 10 ^ 21 then str_int \<lfloor>r\<rfloor> else fmt r)"
| "jsToString fmt (JStr s) = s"
| "jsToString fmt (JArr xs) =
     joinComma (map (\<lambda>x. if x = JUndefined \<or> x = JNull then [] else jsToString fmt x) xs)"
| "jsToString fmt (JObj kvs) = ''[object Object]''"

text \<open>
  \<open>x.includes(p)\<close> and \<open>x.toLowerCase()\<close>. A string has both methods; an array has
  \<open>includes\<close> (is \<open>p\<close> one of the elements) and no \<open>toLowerCase\<close>; a number and a
  boolean have neither, and an entry of a parsed object is never a function.
\<close>

definition includesCall :: "json \<Rightarrow> string \<Rightarrow> exception + bool" where
  "includesCall x p =
     (case x of
        JStr s \<Rightarrow> Inr (str_includes s p)
      | JArr xs \<Rightarrow> Inr (List.member xs (JStr p))
      | _ \<Rightarrow> Inl TypeError)"

definition toLowerCaseCall :: "json \<Rightarrow> exception + string" where
  "toLowerCaseCall x = (case x of JStr s \<Rightarrow> Inr (toLowerCase s) | _ \<Rightarrow> Inl TypeError)"

text \<open>
  The nine constants, under the names of the source prefixed by \<open>cv\<close>. \<open>userAgent\<close>,
  \<open>platform\<close> and \<open>vendor\<close> are whatever truthy value the body holds, or \<open>''\<close>.
\<close>

record common_values =
  cvUserAgent :: json
  cvHeaderUA :: string
  cvIsChrome :: bool
  cvIsFirefox :: bool
  cvIsSafari :: bool
  cvIsMobileUA :: bool
  cvPlatform :: json
  cvPlatformLower :: string
  cvVendor :: json

definition extractCommonValues ::
  "(rat \<Rightarrow> string) \<Rightarrow> json \<Rightarrow> headers \<Rightarrow> exception + common_values" where
  "extractCommonValues fmt body headers =
    (let userAgent = jsOr (jsGet (jsGet body ''navigator'') ''userAgent'') (JStr []);
         headerUA = headerOrEmpty headers ''user-agent''
     in case includesCall userAgent ''Chrome'' of
          Inl e \<Rightarrow> Inl e
        | Inr isChrome \<Rightarrow>
     (case includesCall userAgent ''Firefox'' of
          Inl e \<Rightarrow> Inl e
        | Inr isFirefox \<Rightarrow>
     (case includesCall userAgent ''Safari'' of
          Inl e \<Rightarrow> Inl e
        | Inr safari \<Rightarrow>
     (let isSafari = (safari \<and> \<not> isChrome);
          u = toLowerCase (jsToString fmt userAgent);
          isMobileUA = (str_includes u ''mobile'' \<or> str_includes u ''android''
                         \<or> str_includes u ''iphone'' \<or> str_includes u ''ipad'');
          platform = jsOr (jsGet (jsGet body ''navigator'') ''platform'') (JStr [])
      in case toLowerCaseCall platform of
           Inl e \<Rightarrow> Inl e
         | Inr platformLower \<Rightarrow>
             Inr \<lparr>cvUserAgent = userAgent, cvHeaderUA = headerUA, cvIsChrome = isChrome,
                  cvIsFirefox = isFirefox, cvIsSafari = isSafari, cvIsMobileUA = isMobileUA,
                  cvPlatform = platform, cvPlatformLower = platformLower,
                  cvVendor = jsOr (jsGet (jsGet body ''navigator'') ''vendor'') (JStr [])\<rparr>))))"

text \<open>A string entry of a bundle of the collector's shape, as JSON.\<close>

definition jsonOfString :: "string field \<Rightarrow> json" where
  "jsonOfString x = (case x of Undefined \<Rightarrow> JUndefined | Null \<Rightarrow> JNull | Val s \<Rightarrow> JStr s)"


section \<open>Visit Tracker\<close>

text \<open>
  The process state. The two \<open>Map\<close>s are association lists with distinct keys in
  insertion order (\<open>AList.update\<close> replaces in place or appends, as \<open>Map.set\<close> does).
  A timer handle is a number; \<open>timers\<close> holds the timers that are armed, each with the
  \<open>ip\<close> its callback closes over. \<open>log\<close> is what \<open>console.log\<close> has printed, oldest
  first, without the \<open>timestamp\<close> field of a line. Every call reads the clock once:
  that reading is its argument \<open>now\<close>, in milliseconds.
\<close>

record visit =
  timestamp :: int
  completed :: bool
  botApiCalled :: bool
  timeoutId :: "nat option"
  finalVerdict :: "analysis option"

text \<open>A stored challenge; \<open>issuerIp\<close> is its key \<open>ip\<close>.\<close>

record challenge =
  expectedAnswer :: int
  timestamp :: int
  issuerIp :: string

text \<open>
  What \<open>getVisitVerdict\<close> returns: the frozen verdict, or an object with the keys
  \<open>verdict\<close>, \<open>reason\<close> and sometimes \<open>code\<close>.
\<close>

datatype visit_verdict = Final analysis | Plain string "int option" string

text \<open>
  The value of \<open>timingValid\<close>: \<open>timingProof\<close> itself when that is falsy, else the
  boolean of the three comparisons.
\<close>

datatype timing_value = Falsy "int field" | Flag bool

record verify_reply =
  valid :: bool
  reason :: "string option"
  timingValid :: "timing_value option"
  executionTime :: "int field"
  solveTime :: "int option"

datatype log_line =
    BotVerdictLine string string bool bool
  | ChallengeVerifyLine string "string field" verify_reply
  | VisitStatusLine string visit_verdict
  | BotAnalysisRejectLine string string
  | BotAnalysisLine string string int "string list"

record server =
  pageVisits :: "(string \<times> visit) list"
  challenges :: "(string \<times> challenge) list"
  timers :: "(nat \<times> string) list"
  nextTimer :: nat
  log :: "log_line list"

definition initial :: server where
  "initial = \<lparr>pageVisits = [], challenges = [], timers = [], nextTimer = 0, log = []\<rparr>"

definition VISIT_TTL :: int where
  "VISIT_TTL = 5000"

definition CHALLENGE_TTL :: int where
  "CHALLENGE_TTL = 60000"

text \<open>\<open>clearTimeout\<close>: disarming a timer that is not armed does nothing.\<close>

definition clearTimeout :: "nat \<Rightarrow> server \<Rightarrow> server" where
  "clearTimeout t s = s\<lparr>timers := AList.delete t (timers s)\<rparr>"

text \<open>The verdict object that \<open>deliverBotVerdict\<close> freezes.\<close>

definition timeoutVerdict :: "string \<Rightarrow> analysis" where
  "timeoutVerdict why =
    (let sig = \<lparr>name = ''noJsExecution'', detected = True, weight = 100, reason = why,
                category = Some ''automation''\<rparr>
     in \<lparr>verdict = ''bot'', score = 100, maxScore = 100, code = Some 1006,
         confidence = ''high'', reason = Some why,
         signals = [sig], allSignals = [sig],
         signalsByCategory = Some [(''automation'', [sig])],
         summary = \<lparr>totalChecks = 1, flagged = 1, passed = 0\<rparr>\<rparr>)"

definition deliverBotVerdict :: "string \<Rightarrow> string \<Rightarrow> server \<Rightarrow> server" where
  "deliverBotVerdict ip why s =
    (case map_of (pageVisits s) ip of
       None \<Rightarrow> s
     | Some visit \<Rightarrow>
         if completed visit then s
         else s\<lparr>log := log s @ [BotVerdictLine ip why (botApiCalled visit) (completed visit)],
                pageVisits := AList.update ip
                  (visit\<lparr>completed := True, finalVerdict := Some (timeoutVerdict why)\<rparr>)
                  (pageVisits s)\<rparr>)"

text \<open>The callback that \<open>trackPageVisit\<close> hands to \<open>setTimeout\<close>.\<close>

definition timeoutCallback :: "string \<Rightarrow> server \<Rightarrow> server" where
  "timeoutCallback ip s =
    (case map_of (pageVisits s) ip of
       None \<Rightarrow> s
     | Some visit \<Rightarrow>
         if \<not> botApiCalled visit
         then deliverBotVerdict ip
                ''Fetched page but never called /api/bot within 5 seconds (no JS execution)'' s
         else s)"

text \<open>An armed timer goes off: it is no longer armed, and its callback runs.\<close>

definition timerFires :: "nat \<Rightarrow> server \<Rightarrow> server" where
  "timerFires t s =
    (case map_of (timers s) t of
       None \<Rightarrow> s
     | Some ip \<Rightarrow> timeoutCallback ip (clearTimeout t s))"

text \<open>The clean-up loop of \<open>trackPageVisit\<close>, over the entries in order.\<close>

fun evictVisits :: "int \<Rightarrow> (string \<times> visit) list \<Rightarrow> server \<Rightarrow> server" where
  "evictVisits now [] s = s"
| "evictVisits now ((visitIp, visit) # rest) s =
     (if now - visit.timestamp visit > 60000
      then evictVisits now rest
             ((case timeoutId visit of Some t \<Rightarrow> clearTimeout t s | None \<Rightarrow> s)
                \<lparr>pageVisits := AList.delete visitIp (pageVisits s)\<rparr>)
      else evictVisits now rest s)"

definition trackPageVisit :: "string \<Rightarrow> int \<Rightarrow> server \<Rightarrow> server" where
  "trackPageVisit ip now s =
    (let s1 = (case map_of (pageVisits s) ip of
                 Some existingVisit \<Rightarrow>
                   (case timeoutId existingVisit of Some t \<Rightarrow> clearTimeout t s | None \<Rightarrow> s)
               | None \<Rightarrow> s);
         t = nextTimer s1;
         s2 = s1\<lparr>timers := AList.update t ip (timers s1), nextTimer := Suc t\<rparr>;
         s3 = s2\<lparr>pageVisits := AList.update ip
                 \<lparr>visit.timestamp = now, completed = False, botApiCalled = False,
                  timeoutId = Some t, finalVerdict = None\<rparr> (pageVisits s2)\<rparr>
     in evictVisits now (pageVisits s3) s3)"

definition markBotApiCalled :: "string \<Rightarrow> server \<Rightarrow> server" where
  "markBotApiCalled ip s =
    (case map_of (pageVisits s) ip of
       None \<Rightarrow> s
     | Some visit \<Rightarrow>
         (case timeoutId visit of
            Some t \<Rightarrow>
              (clearTimeout t s)\<lparr>pageVisits := AList.update ip
                 (visit\<lparr>botApiCalled := True, timeoutId := None\<rparr>) (pageVisits s)\<rparr>
          | None \<Rightarrow>
              s\<lparr>pageVisits := AList.update ip (visit\<lparr>botApiCalled := True\<rparr>) (pageVisits s)\<rparr>))"

definition markVisitComplete :: "string \<Rightarrow> server \<Rightarrow> server" where
  "markVisitComplete ip s =
    (case map_of (pageVisits s) ip of
       None \<Rightarrow> s
     | Some visit \<Rightarrow> s\<lparr>pageVisits := AList.update ip (visit\<lparr>completed := True\<rparr>) (pageVisits s)\<rparr>)"

text \<open>
  \<open>Math.round((VISIT_TTL - elapsed) / 1000)\<close> rounds a half upwards: it is the floor of
  \<open>(VISIT_TTL - elapsed + 500) / 1000\<close>.
\<close>

definition getVisitVerdict :: "string \<Rightarrow> int \<Rightarrow> server \<Rightarrow> visit_verdict" where
  "getVisitVerdict ip now s =
    (case map_of (pageVisits s) ip of
       None \<Rightarrow> Plain ''unknown'' None ''No visit tracked for this IP''
     | Some visit \<Rightarrow>
         (case finalVerdict visit of
            Some v \<Rightarrow> Final v
          | None \<Rightarrow>
              (let elapsed = now - visit.timestamp visit
               in if completed visit \<and> botApiCalled visit
                  then Plain ''pending-analysis'' None ''Visit complete, awaiting full analysis''
                  else if \<not> botApiCalled visit
                  then (if elapsed > VISIT_TTL
                        then Plain ''bot'' (Some 1006) ''Never called /api/bot - no JS execution''
                        else Plain ''pending'' None
                               (''Waiting for /api/bot call (''
                                  @ str_int ((VISIT_TTL - elapsed + 500) div 1000)
                                  @ ''s remaining)''))
                  else Plain ''pending'' None ''Bot API called, awaiting completion'')))"


section \<open>Challenge Store\<close>

datatype operation = Plus | Times | Minus

definition operationText :: "operation \<Rightarrow> string" where
  "operationText operation = (case operation of Plus \<Rightarrow> ''+'' | Times \<Rightarrow> ''*'' | Minus \<Rightarrow> ''-'')"

record challenge_reply =
  challengeId :: string
  challenge :: string
  timingChallenge :: int

text \<open>The clean-up loop of \<open>GET /api/challenge\<close>, over the entries in order.\<close>

fun sweepChallenges ::
  "int \<Rightarrow> (string \<times> challenge) list \<Rightarrow> (string \<times> challenge) list \<Rightarrow> (string \<times> challenge) list" where
  "sweepChallenges now [] m = m"
| "sweepChallenges now ((cid, c) # rest) m =
     (if now - challenge.timestamp c > CHALLENGE_TTL
      then sweepChallenges now rest (AList.delete cid m)
      else sweepChallenges now rest m)"

text \<open>
  \<open>GET /api/challenge\<close>. The four draws of \<open>Math.random\<close> are arguments: the id,
  the operands \<open>a\<close> and \<open>b\<close>, and the operation.
\<close>

definition getChallenge ::
  "string \<Rightarrow> int \<Rightarrow> string \<Rightarrow> int \<Rightarrow> int \<Rightarrow> operation \<Rightarrow> server \<Rightarrow> challenge_reply \<times> server" where
  "getChallenge ip now cid a b operation s =
    (let expected = (case operation of Plus \<Rightarrow> a + b | Times \<Rightarrow> a * b | Minus \<Rightarrow> a - b);
         stored = AList.update cid
                    \<lparr>expectedAnswer = expected, timestamp = now, issuerIp = ip\<rparr> (challenges s)
     in (\<lparr>challengeId = cid,
          challenge = ''(function() { return '' @ str_int a @ '' '' @ operationText operation
                        @ '' '' @ str_int b @ ''; })()'',
          timingChallenge = now\<rparr>,
         s\<lparr>challenges := sweepChallenges now stored stored\<rparr>))"

text \<open>The body of \<open>POST /api/challenge/verify\<close>, a parsed JSON object.\<close>

record verify_body =
  challengeId :: "string field"
  answer :: "int field"
  timingProof :: "int field"
  executionTime :: "int field"

definition notFoundReply :: verify_reply where
  "notFoundReply = \<lparr>valid = False, reason = Some ''Challenge not found or expired'',
                     timingValid = None, executionTime = Undefined, solveTime = None\<rparr>"

text \<open>\<open>challenges.get(challengeId)\<close>: the keys are strings.\<close>

definition lookupChallenge :: "string field \<Rightarrow> server \<Rightarrow> (string \<times> challenge) option" where
  "lookupChallenge key s =
    (case key of
       Val cid \<Rightarrow> (case map_of (challenges s) cid of Some c \<Rightarrow> Some (cid, c) | None \<Rightarrow> None)
     | _ \<Rightarrow> None)"

definition postChallengeVerify ::
  "string \<Rightarrow> int \<Rightarrow> verify_body \<Rightarrow> server \<Rightarrow> verify_reply \<times> server" where
  "postChallengeVerify ip now body s =
    (case lookupChallenge (verify_body.challengeId body) s of
       None \<Rightarrow> (notFoundReply, s)
     | Some (cid, c) \<Rightarrow>
         (let isCorrect = eqVal (answer body) (expectedAnswer c);
              timeDiff = now - challenge.timestamp c;
              timingV = (if \<not> truthyNum (timingProof body) then Falsy (timingProof body)
                         else Flag (\<bar>numOr0 (timingProof body) - challenge.timestamp c\<bar> < 1000
                                    \<and> gtNum (verify_body.executionTime body) 0
                                    \<and> ltNum (verify_body.executionTime body) 5000));
              result = \<lparr>valid = isCorrect, reason = None, timingValid = Some timingV,
                        executionTime = verify_body.executionTime body,
                        solveTime = Some timeDiff\<rparr>
          in (result,
              s\<lparr>challenges := AList.delete cid (challenges s),
                log := log s @ [ChallengeVerifyLine ip (verify_body.challengeId body) result]\<rparr>)))"

section \<open>The analysis endpoint and the status endpoint\<close>

text \<open>The synthetic verdict of the early rejection.\<close>

definition rejectVerdict :: "string \<Rightarrow> analysis" where
  "rejectVerdict why =
    (let sig = \<lparr>name = ''jsExecutionFailed'', detected = True, weight = 100, reason = why,
                category = Some ''automation''\<rparr>
     in \<lparr>verdict = ''bot'', score = 100, maxScore = 100, code = Some 1005,
         confidence = ''high'', reason = Some why,
         signals = [sig], allSignals = [sig],
         signalsByCategory = Some [(''automation'', [sig])],
         summary = \<lparr>totalChecks = 1, flagged = 1, passed = 0\<rparr>\<rparr>)"

definition hasEssentialData_of :: "browserData \<Rightarrow> bool" where
  "hasEssentialData_of bd =
     (gtNum (getf (screen bd) width) 0 \<and> truthyStr (getf (navigator bd) userAgent)
      \<and> window bd \<noteq> None)"

definition hasJsChallenge_of :: "browserData \<Rightarrow> bool" where
  "hasJsChallenge_of bd = isTrue (getf (jsChallenge bd) js_challenge.valid)"

text \<open>\<open>POST /api/bot\<close>: the response and the new state.\<close>

definition postApiBot ::
  "(rat \<Rightarrow> string) \<Rightarrow> string \<Rightarrow> browserData \<Rightarrow> headers \<Rightarrow> server \<Rightarrow> analysis \<times> server" where
  "postApiBot fmt ip bd headers s =
    (let s1 = markBotApiCalled ip s;
         hasEssentialData = hasEssentialData_of bd;
         hasJsChallenge = hasJsChallenge_of bd
     in if \<not> hasEssentialData \<or> \<not> hasJsChallenge
        then (let why = (if \<not> hasEssentialData
                         then ''Missing essential browser data (no JS execution)''
                         else ''JS challenge not completed or failed'')
              in (rejectVerdict why, s1\<lparr>log := log s1 @ [BotAnalysisRejectLine ip why]\<rparr>))
        else (let result = analyzeBotSignals fmt bd headers;
                  s2 = markVisitComplete ip s1
              in (result,
                  s2\<lparr>log := log s2 @ [BotAnalysisLine ip (verdict result) (score result)
                                          (map name (signals result))]\<rparr>)))"

text \<open>\<open>GET /api/visit-status\<close>\<close>

definition getVisitStatus :: "string \<Rightarrow> int \<Rightarrow> server \<Rightarrow> visit_verdict \<times> server" where
  "getVisitStatus ip now s =
    (let v = getVisitVerdict ip now s
     in (v, s\<lparr>log := log s @ [VisitStatusLine ip v]\<rparr>))"

section \<open>Runs of the server\<close>

text \<open>
  What can happen to the state: a document request (the middleware calls
  \<open>trackPageVisit\<close>), the four endpoints, and an armed timer going off.
\<close>

datatype event =
    DocumentRequest string int
  | GetChallenge string int string int int operation
  | PostChallengeVerify string int verify_body
  | PostApiBot string browserData headers
  | GetVisitStatus string int
  | TimerFires nat

fun step :: "(rat \<Rightarrow> string) \<Rightarrow> server \<Rightarrow> event \<Rightarrow> server" where
  "step fmt s (DocumentRequest ip now) = trackPageVisit ip now s"
| "step fmt s (GetChallenge ip now cid a b operation) = snd (getChallenge ip now cid a b operation s)"
| "step fmt s (PostChallengeVerify ip now body) = snd (postChallengeVerify ip now body s)"
| "step fmt s (PostApiBot ip bd headers) = snd (postApiBot fmt ip bd headers s)"
| "step fmt s (GetVisitStatus ip now) = snd (getVisitStatus ip now s)"
| "step fmt s (TimerFires t) = timerFires t s"

definition run :: "(rat \<Rightarrow> string) \<Rightarrow> server \<Rightarrow> event list \<Rightarrow> server" where
  "run fmt s es = foldl (step fmt) s es"


section \<open>Inputs for the examples\<close>

text \<open>The body \<open>{}\<close>.\<close>

definition emptyBundle :: browserData where
  "emptyBundle =
    \<lparr>screen = None, window = None, navigator = None, userAgentData = None,
     timezone = None, performance = None, webgl = None, webgl2 = None, canvas = None,
     audio = None, battery = None, mediaDevices = None, speechVoices = None,
     plugins = None, fonts = None, touch = None, gamepads = None, keyboard = None,
     document = None, math = None, connection = None, features = None,
     jsChallenge = None\<rparr>"

text \<open>
  A body that passes the early rejection: a screen, a window, a navigator with a user
  agent, and a challenge outcome that is valid.
\<close>

definition exampleBundle :: browserData where
  "exampleBundle = emptyBundle
    \<lparr>screen := Some \<lparr>width = Val 1920, height = Val 1080, colorDepth = Val 24,
                     devicePixelRatio = Val 1\<rparr>,
     window := Some \<lparr>innerWidth = Val 1280, innerHeight = Val 720,
                     outerWidth = Val 1280, outerHeight = Val 800\<rparr>,
     navigator := Some \<lparr>userAgent = Val ''Mozilla/5.0 (X11; Linux x86_64) Firefox/120.0'',
                        language = Val ''en-US'', languages = Some [''en-US'', ''en''],
                        platform = Val ''Linux x86_64'', vendor = Val [],
                        product = Val ''Gecko'', appName = Val ''Netscape'',
                        webdriver = Val False\<rparr>,
     jsChallenge := Some \<lparr>js_challenge.valid = Val True, solveTime = Val 12,
                          reason = Undefined\<rparr>\<rparr>"

text \<open>
  The body \<open>{"screen":{"width":1920},"window":{},"navigator":{"userAgent":12345},
  "jsChallenge":{"valid":true}}\<close>. It passes the early rejection of the handler, which
  only asks whether \<open>screen.width > 0\<close>, whether \<open>navigator.userAgent\<close> and \<open>window\<close>
  are truthy, and whether \<open>jsChallenge.valid === true\<close>.
\<close>

definition illTypedBody :: json where
  "illTypedBody =
     JObj [(''screen'', JObj [(''width'', JNum 1920)]),
           (''window'', JObj []),
           (''navigator'', JObj [(''userAgent'', JNum 12345)]),
           (''jsChallenge'', JObj [(''valid'', JBool True)])]"

text \<open>
  The examples render a number that is not an integer by its integer part. None of them
  holds such a number, so the rendering is never consulted.
\<close>

definition exampleFmt :: "rat \<Rightarrow> string" where
  "exampleFmt = str_int \<circ> floor"

section \<open>Notions used in the statements\<close>

text \<open>
  The relation between the two variables of an evaluator: \<open>score\<close> is the sum of the
  weights of the signals pushed as detected.
\<close>

definition scoreInv :: "signal list \<times> int \<Rightarrow> bool" where
  "scoreInv st = (snd st = sum_list (map weight (filter detected (fst st))))"

text \<open>The event issues a challenge under the id \<open>cid\<close>.\<close>

fun issues :: "string \<Rightarrow> event \<Rightarrow> bool" where
  "issues cid (GetChallenge ip now cid' a b operation) = (cid' = cid)"
| "issues cid e = False"

text \<open>The event opens a session for \<open>ip\<close>, replacing the one it had.\<close>

fun opens :: "string \<Rightarrow> event \<Rightarrow> bool" where
  "opens ip (DocumentRequest ip' now) = (ip' = ip)"
| "opens ip e = False"

text \<open>
  The event evicts a session opened at \<open>ts\<close>: the clean-up loop of \<open>trackPageVisit\<close>
  runs on every document request, whatever its address, and deletes the sessions older
  than 60 seconds.
\<close>

fun evicts :: "int \<Rightarrow> event \<Rightarrow> bool" where
  "evicts ts (DocumentRequest ip now) = (now - ts > 60000)"
| "evicts ts e = False"

text \<open>
  The number of \<open>[bot-verdict]\<close> lines printed for \<open>ip\<close>. \<open>deliverBotVerdict\<close>
  prints one exactly when it freezes the timeout verdict (code 1006).
\<close>

fun isBotVerdictFor :: "string \<Rightarrow> log_line \<Rightarrow> bool" where
  "isBotVerdictFor ip (BotVerdictLine ip' why called done) = (ip' = ip)"
| "isBotVerdictFor ip l = False"

definition timeoutVerdicts :: "string \<Rightarrow> server \<Rightarrow> nat" where
  "timeoutVerdicts ip s = length (filter (isBotVerdictFor ip) (log s))"

text \<open>
  One when the session of \<open>ip\<close> can still receive the timeout verdict: it is tracked,
  not completed, and the analysis endpoint has not been called for it.
\<close>

definition deliverable :: "string \<Rightarrow> server \<Rightarrow> nat" where
  "deliverable ip s =
     (case map_of (pageVisits s) ip of
        Some v \<Rightarrow> (if \<not> completed v \<and> \<not> botApiCalled v then 1 else 0)
      | None \<Rightarrow> 0)"

text \<open>The reason that the timer callback passes to \<open>deliverBotVerdict\<close>.\<close>

definition noJsReason :: string where
  "noJsReason = ''Fetched page but never called /api/bot within 5 seconds (no JS execution)''"

text \<open>
  In every tracked session, \<open>completed\<close> without \<open>botApiCalled\<close> means that the
  timeout verdict is frozen.
\<close>

definition frozenOrOpen :: "server \<Rightarrow> bool" where
  "frozenOrOpen s =
     (\<forall>ip v. map_of (pageVisits s) ip = Some v \<longrightarrow> completed v \<longrightarrow> \<not> botApiCalled v \<longrightarrow>
        finalVerdict v = Some (timeoutVerdict noJsReason))"

text \<open>The keys of \<open>pageVisits\<close> are distinct, as those of a \<open>Map\<close> are.\<close>

definition distinctVisits :: "server \<Rightarrow> bool" where
  "distinctVisits s = distinct (map fst (pageVisits s))"

text \<open>
  The session of \<open>ip\<close> is tracked, was opened at \<open>ts\<close> and holds the frozen timeout
  verdict.
\<close>

definition frozenAt :: "string \<Rightarrow> int \<Rightarrow> server \<Rightarrow> bool" where
  "frozenAt ip ts s =
     (case map_of (pageVisits s) ip of
        Some v \<Rightarrow> finalVerdict v = Some (timeoutVerdict noJsReason) \<and> visit.timestamp v = ts
      | None \<Rightarrow> False)"

section \<open>Score, verdict and confidence\<close>

lemma foldl_steps_invariant:
  "list_all (\<lambda>f. \<forall>st. scoreInv st \<longrightarrow> scoreInv (f st)) steps \<Longrightarrow> scoreInv st0 \<Longrightarrow>
   scoreInv (foldl (\<lambda>st step. step st) st0 steps)"
proof (induction steps arbitrary: st0)
  case Nil
  then show ?case by simp
next
  case (Cons f fs)
  from Cons.prems have "scoreInv (f st0)"
    and "list_all (\<lambda>f. \<forall>st. scoreInv st \<longrightarrow> scoreInv (f st)) fs"
    by (simp_all del: split_paired_All)
  then show ?case using Cons.IH by simp
qed

lemma keeps_addSignalH: "\<forall>st. scoreInv st \<longrightarrow> scoreInv (addSignalH nm det w p q st)"
  by (simp add: addSignalH_def scoreInv_def)

lemma keeps_addSignal: "\<forall>st. scoreInv st \<longrightarrow> scoreInv (addSignal nm det w p q c st)"
  by (simp add: addSignal_def scoreInv_def)

lemma all_Nil: "list_all P []"
  by simp

lemma all_Cons: "P x \<Longrightarrow> list_all P xs \<Longrightarrow> list_all P (x # xs)"
  by simp

lemma all_append: "list_all P xs \<Longrightarrow> list_all P ys \<Longrightarrow> list_all P (xs @ ys)"
  by simp

lemma all_if: "list_all P xs \<Longrightarrow> list_all P ys \<Longrightarrow> list_all P (if c then xs else ys)"
  by simp

lemmas all_steps = all_Nil all_Cons all_append all_if keeps_addSignal keeps_addSignalH

text \<open>Every call of \<open>addSignal\<close> keeps the relation, whatever it detects.\<close>

lemma headerSteps_keep:
  "list_all (\<lambda>f. \<forall>st. scoreInv st \<longrightarrow> scoreInv (f st)) (headerSteps headers)"
  unfolding headerSteps_def Let_def by (intro all_steps)

lemma criticalSteps_keep:
  "list_all (\<lambda>f. \<forall>st. scoreInv st \<longrightarrow> scoreInv (f st)) (criticalSteps bd)"
  unfolding criticalSteps_def Let_def by (intro all_steps)

lemma essentialSteps_keep:
  "list_all (\<lambda>f. \<forall>st. scoreInv st \<longrightarrow> scoreInv (f st)) (essentialSteps bd)"
  unfolding essentialSteps_def Let_def by (intro all_steps)

lemma strongSteps_keep:
  "list_all (\<lambda>f. \<forall>st. scoreInv st \<longrightarrow> scoreInv (f st)) (strongSteps bd)"
  unfolding strongSteps_def Let_def by (intro all_steps)

lemma mediumSteps_keep:
  "list_all (\<lambda>f. \<forall>st. scoreInv st \<longrightarrow> scoreInv (f st)) (mediumSteps bd)"
  unfolding mediumSteps_def Let_def by (intro all_steps)

lemma weakSteps_keep:
  "list_all (\<lambda>f. \<forall>st. scoreInv st \<longrightarrow> scoreInv (f st)) (weakSteps fmt bd)"
  unfolding weakSteps_def Let_def by (intro all_steps)

lemma headerBasedSteps_keep:
  "list_all (\<lambda>f. \<forall>st. scoreInv st \<longrightarrow> scoreInv (f st)) (headerBasedSteps bd headers)"
  unfolding headerBasedSteps_def Let_def by (intro all_steps)

lemma consistencySteps_keep:
  "list_all (\<lambda>f. \<forall>st. scoreInv st \<longrightarrow> scoreInv (f st)) (consistencySteps bd headers)"
  unfolding consistencySteps_def Let_def by (intro all_steps)

lemma fingerprintSteps_keep:
  "list_all (\<lambda>f. \<forall>st. scoreInv st \<longrightarrow> scoreInv (f st)) (fingerprintSteps bd)"
  unfolding fingerprintSteps_def Let_def by (intro all_steps)

lemma signalSteps_keep:
  "list_all (\<lambda>f. \<forall>st. scoreInv st \<longrightarrow> scoreInv (f st)) (signalSteps fmt bd headers)"
  unfolding signalSteps_def
  by (intro all_append criticalSteps_keep essentialSteps_keep strongSteps_keep mediumSteps_keep
      weakSteps_keep headerBasedSteps_keep consistencySteps_keep fingerprintSteps_keep)

lemma headers_score:
  "scoreInv (foldl (\<lambda>st step. step st) ([], 0) (headerSteps headers))"
  by (rule foldl_steps_invariant [OF headerSteps_keep]) (simp add: scoreInv_def)

lemma signals_score:
  "scoreInv (foldl (\<lambda>st step. step st) ([], 0) (signalSteps fmt bd headers))"
  by (rule foldl_steps_invariant [OF signalSteps_keep]) (simp add: scoreInv_def)

text \<open>
  Score, verdict and confidence of a returned result. For the Header Evaluator on any
  headers, and for the Signal Evaluator on any headers and any bundle of the collector's
  shape (any key missing or \<open>null\<close>), the score is the smaller of 100 and the sum of the
  weights of the detected signals; the verdict is \<open>bot\<close> from 50, \<open>suspicious\<close> from
  25 and \<open>human\<close> below; the confidence is \<open>high\<close>, \<open>medium\<close>, \<open>low\<close> by the same
  two thresholds. Bodies outside that shape are the subject of the next section.
\<close>

theorem score_and_verdict:
  "score (analyzeHeadersOnly headers)
     = min 100 (sum_list (map weight (filter detected (allSignals (analyzeHeadersOnly headers)))))
   \<and> verdict (analyzeHeadersOnly headers)
       = (if score (analyzeHeadersOnly headers) \<ge> 50 then ''bot''
          else if score (analyzeHeadersOnly headers) \<ge> 25 then ''suspicious'' else ''human'')
   \<and> confidence (analyzeHeadersOnly headers)
       = (if score (analyzeHeadersOnly headers) \<ge> 50 then ''high''
          else if score (analyzeHeadersOnly headers) \<ge> 25 then ''medium'' else ''low'')
   \<and> score (analyzeBotSignals fmt bd headers)
       = min 100 (sum_list (map weight
           (filter detected (allSignals (analyzeBotSignals fmt bd headers)))))
   \<and> verdict (analyzeBotSignals fmt bd headers)
       = (if score (analyzeBotSignals fmt bd headers) \<ge> 50 then ''bot''
          else if score (analyzeBotSignals fmt bd headers) \<ge> 25 then ''suspicious''
          else ''human'')
   \<and> confidence (analyzeBotSignals fmt bd headers)
       = (if score (analyzeBotSignals fmt bd headers) \<ge> 50 then ''high''
          else if score (analyzeBotSignals fmt bd headers) \<ge> 25 then ''medium'' else ''low'')"
  using headers_score [of headers] signals_score [of fmt bd headers]
  by (simp add: analyzeHeadersOnly_def analyzeBotSignals_def Let_def scoreInv_def
      verdictOf_def confidenceOf_def min.commute)

section \<open>The Signal Evaluator on a body of any shape\<close>

text \<open>
  On a body of the collector's shape the common values are those of the model above:
  \<open>userAgent\<close>, \<open>platform\<close> and \<open>vendor\<close> are strings, and no call raises.
\<close>

lemma jsOr_jsonOfString: "jsOr (jsonOfString x) (JStr []) = JStr (strOr x [])"
  by (cases x) (simp_all add: jsOr_def jsonOfString_def jsTruthy_def strOr_def)

lemma extractCommonValues_typed:
  assumes "jsGet (jsGet body ''navigator'') ''userAgent''
             = jsonOfString (getf (navigator bd) userAgent)"
    and "jsGet (jsGet body ''navigator'') ''platform''
             = jsonOfString (getf (navigator bd) navigator_data.platform)"
    and "jsGet (jsGet body ''navigator'') ''vendor''
             = jsonOfString (getf (navigator bd) navigator_data.vendor)"
  shows "extractCommonValues fmt body headers =
           Inr \<lparr>cvUserAgent = JStr (userAgent_of bd), cvHeaderUA = headerUA_of headers,
                cvIsChrome = isChrome_of bd,
                cvIsFirefox = str_includes (userAgent_of bd) ''Firefox'',
                cvIsSafari = isSafari_of bd, cvIsMobileUA = isMobileUA_of bd,
                cvPlatform = JStr (platform_of bd), cvPlatformLower = platformLower_of bd,
                cvVendor = JStr (vendor_of bd)\<rparr>"
  using assms
  by (simp add: extractCommonValues_def jsOr_jsonOfString includesCall_def toLowerCaseCall_def
      userAgent_of_def headerUA_of_def isChrome_of_def isSafari_of_def isMobileUA_of_def
      platform_of_def platformLower_of_def vendor_of_def Let_def)

text \<open>
  A \<open>navigator.userAgent\<close> that is a number other than 0, \<open>true\<close> or an object is
  truthy, so \<open>|| ''\<close> keeps it, and \<open>userAgent.includes('Chrome')\<close> raises. The same
  holds of \<open>navigator.platform\<close> and \<open>toLowerCase\<close>, for an array too.
\<close>

lemma only_TypeError: "(e::exception) = TypeError"
  by (cases e) simp

lemma userAgent_not_a_string:
  assumes "jsGet (jsGet body ''navigator'') ''userAgent'' = x"
    and "(\<exists>r. x = JNum r \<and> r \<noteq> 0) \<or> x = JBool True \<or> (\<exists>kvs. x = JObj kvs)"
  shows "extractCommonValues fmt body headers = Inl TypeError"
  using assms
  by (auto simp add: extractCommonValues_def jsOr_def jsTruthy_def includesCall_def Let_def)

lemma platform_not_a_string:
  assumes "jsGet (jsGet body ''navigator'') ''platform'' = x"
    and "(\<exists>r. x = JNum r \<and> r \<noteq> 0) \<or> x = JBool True \<or> (\<exists>kvs. x = JObj kvs)
         \<or> (\<exists>xs. x = JArr xs)"
  shows "extractCommonValues fmt body headers = Inl TypeError"
proof -
  from assms(2) have "toLowerCaseCall (jsOr x (JStr [])) = Inl TypeError"
    by (auto simp add: jsOr_def jsTruthy_def toLowerCaseCall_def)
  with assms(1) show ?thesis
    by (simp add: extractCommonValues_def Let_def only_TypeError split: sum.split)
qed

text \<open>
  C1. The claim is about every input, and the input of the Signal Evaluator is the body
  of \<open>POST /api/bot\<close>, any JSON. On the body \<open>{"screen":{"width":1920},"window":{},
  "navigator":{"userAgent":12345},"jsChallenge":{"valid":true}}\<close>, which passes the
  early rejection, \<open>analyzeBotSignals\<close> does not return a score: the statement
  \<open>const isChrome = userAgent.includes('Chrome')\<close> calls \<open>includes\<close> on the number
  12345 and raises a \<open>TypeError\<close>, whatever the headers. The evaluator guards every read against a missing value (\<open>?.\<close>, \<open>|| ''\<close>)
  and the type of \<open>webgl.extensions\<close> (\<open>Array.isArray\<close>), but not the type of the
  values on which it calls string methods.
\<close>

theorem ill_typed_userAgent_throws:
  "jsGet (jsGet illTypedBody ''navigator'') ''userAgent'' = JNum 12345
   \<and> extractCommonValues exampleFmt illTypedBody Map.empty = Inl TypeError
   \<and> extractCommonValues exampleFmt illTypedBody
        [''user-agent'' \<mapsto> ''Mozilla/5.0 (X11; Linux x86_64) Firefox/120.0'']
      = Inl TypeError"
  by code_simp

section \<open>The empty curl request\<close>

text \<open>
  C9. For a request whose only header is \<open>User-Agent: curl/8.1.2\<close>, the Header
  Evaluator detects exactly nine signals, listed here in the order in which the source
  pushes them: shortUserAgent (15), botUserAgent (30), noAcceptHeader (10),
  noAcceptLanguage (15), noAcceptEncoding (10), noSecFetch (15), noSecChUa (8),
  noConnection (5), noUpgradeInsecure (5). Their weights add up to 113; the score is 100,
  the verdict \<open>bot\<close>, the confidence \<open>high\<close>.
\<close>

theorem empty_curl:
  "map (\<lambda>s. (name s, weight s))
       (signals (analyzeHeadersOnly [''user-agent'' \<mapsto> ''curl/8.1.2'']))
     = [(''shortUserAgent'', 15), (''botUserAgent'', 30), (''noAcceptHeader'', 10),
        (''noAcceptLanguage'', 15), (''noAcceptEncoding'', 10), (''noSecFetch'', 15),
        (''noSecChUa'', 8), (''noConnection'', 5), (''noUpgradeInsecure'', 5)]
   \<and> sum_list (map weight (signals (analyzeHeadersOnly [''user-agent'' \<mapsto> ''curl/8.1.2''])))
       = 113
   \<and> score (analyzeHeadersOnly [''user-agent'' \<mapsto> ''curl/8.1.2'']) = 100
   \<and> verdict (analyzeHeadersOnly [''user-agent'' \<mapsto> ''curl/8.1.2'']) = ''bot''
   \<and> confidence (analyzeHeadersOnly [''user-agent'' \<mapsto> ''curl/8.1.2'']) = ''high''"
  by code_simp

section \<open>Status of an address that is not tracked\<close>

text \<open>
  C10. For every \<open>GET /api/visit-status\<close> from an IP that has no tracked session, the
  response is \<open>{verdict: 'unknown', reason: 'No visit tracked for this IP'}\<close>.
\<close>

theorem visit_status_unknown:
  "map_of (pageVisits s) ip = None \<Longrightarrow>
   fst (getVisitStatus ip now s) = Plain ''unknown'' None ''No visit tracked for this IP''"
  by (simp add: getVisitStatus_def getVisitVerdict_def Let_def)

theorem visit_status_unknown_witness:
  "map_of (pageVisits initial) ''203.0.113.7'' = None \<and>
   fst (getVisitStatus ''203.0.113.7'' 0 initial)
     = Plain ''unknown'' None ''No visit tracked for this IP''"
  using visit_status_unknown [of initial "''203.0.113.7''" 0] by (simp add: initial_def)

section \<open>The early rejection\<close>



section \<open>Challenge Store: redemption and expiry\<close>

text \<open>The tracker and the analysis endpoint leave the challenges alone.\<close>

lemma challenges_clearTimeout [simp]: "challenges (clearTimeout t s) = challenges s"
  by (simp add: clearTimeout_def)

lemma challenges_evictVisits [simp]: "challenges (evictVisits now vs s) = challenges s"
  by (induction now vs s rule: evictVisits.induct) (auto split: option.splits)

lemma challenges_trackPageVisit [simp]: "challenges (trackPageVisit ip now s) = challenges s"
  by (simp add: trackPageVisit_def Let_def split: option.splits)

lemma challenges_markBotApiCalled [simp]: "challenges (markBotApiCalled ip s) = challenges s"
  by (simp add: markBotApiCalled_def split: option.splits)

lemma challenges_markVisitComplete [simp]: "challenges (markVisitComplete ip s) = challenges s"
  by (simp add: markVisitComplete_def split: option.splits)

lemma challenges_postApiBot [simp]:
  "challenges (snd (postApiBot fmt ip bd headers s)) = challenges s"
  by (simp add: postApiBot_def Let_def)

lemma challenges_deliverBotVerdict [simp]: "challenges (deliverBotVerdict ip why s) = challenges s"
  by (simp add: deliverBotVerdict_def split: option.splits)

lemma challenges_timerFires [simp]: "challenges (timerFires t s) = challenges s"
  by (simp add: timerFires_def timeoutCallback_def split: option.splits)

lemma challenges_getVisitStatus [simp]: "challenges (snd (getVisitStatus ip now s)) = challenges s"
  by (simp add: getVisitStatus_def Let_def)

text \<open>The sweep only deletes, and it deletes every entry that is past the TTL.\<close>

lemma sweep_keeps_absent:
  "map_of m cid = None \<Longrightarrow> map_of (sweepChallenges now xs m) cid = None"
  by (induction now xs m rule: sweepChallenges.induct) (auto simp: delete_conv')

lemma sweep_removes_expired:
  "(cid, c) \<in> set xs \<Longrightarrow> now - challenge.timestamp c > CHALLENGE_TTL \<Longrightarrow>
   map_of (sweepChallenges now xs m) cid = None"
proof (induction now xs m rule: sweepChallenges.induct)
  case (1 now m)
  then show ?case by simp
next
  case (2 now cid' c' rest m)
  show ?case
  proof (cases "(cid, c) = (cid', c')")
    case True
    with "2.prems" show ?thesis
      by (simp add: sweep_keeps_absent delete_conv')
  next
    case False
    with "2.prems" have "(cid, c) \<in> set rest" by auto
    with "2.IH" "2.prems" show ?thesis by simp
  qed
qed


lemma verify_keeps_absent:
  "map_of (challenges s) cid = None \<Longrightarrow>
   map_of (challenges (snd (postChallengeVerify ip now body s))) cid = None"
  by (auto simp add: postChallengeVerify_def lookupChallenge_def Let_def delete_conv'
      split: option.splits field.splits)

lemma step_keeps_absent:
  "map_of (challenges s) cid = None \<Longrightarrow> \<not> issues cid e \<Longrightarrow>
   map_of (challenges (step fmt s e)) cid = None"
  by (cases e) (auto simp add: getChallenge_def Let_def update_conv' verify_keeps_absent
      intro!: sweep_keeps_absent)

lemma run_keeps_absent:
  "map_of (challenges s) cid = None \<Longrightarrow> \<forall>e \<in> set es. \<not> issues cid e \<Longrightarrow>
   map_of (challenges (run fmt s es)) cid = None"
  unfolding run_def
  by (induction es arbitrary: s) (auto simp add: step_keeps_absent)

lemma verify_absent:
  "map_of (challenges s) cid = None \<Longrightarrow> verify_body.challengeId body = Val cid \<Longrightarrow>
   fst (postChallengeVerify ip now body s) = notFoundReply"
  by (simp add: postChallengeVerify_def lookupChallenge_def)



text \<open>
  C3, as stated, fails: \<open>POST /api/challenge/verify\<close> never looks at the age of a
  challenge. A challenge issued at time 1000 and verified at time 62000, with no
  \<open>GET /api/challenge\<close> in between, is found and redeemed.
\<close>

theorem old_challenge_redeemed:
  "verify_reply.valid (fst (postChallengeVerify ''203.0.113.7'' 62000
      \<lparr>challengeId = Val ''k3x9q2m7p1abc'', answer = Val 20, timingProof = Val 1000,
       executionTime = Val 15\<rparr>
      (snd (getChallenge ''203.0.113.7'' 1000 ''k3x9q2m7p1abc'' 7 13 Plus initial))))"
  by code_simp

text \<open>
  C3, amended. For every stored challenge, once a \<open>GET /api/challenge\<close> has run while
  the challenge was more than 60 seconds old (its sweep deletes it), every later
  \<open>POST /api/challenge/verify\<close> with its id answers \<open>{valid: false, reason: 'Challenge
  not found or expired'}\<close>, unless a new challenge was issued under the same id.
\<close>

theorem expired_after_sweep:
  assumes "map_of (challenges s) cid = Some c"
    and "now - challenge.timestamp c > 60000"
    and "cid' \<noteq> cid"
    and "\<forall>e \<in> set es. \<not> issues cid e"
    and "verify_body.challengeId body = Val cid"
  shows "fst (postChallengeVerify ip' now' body
               (run fmt (snd (getChallenge ip now cid' a b operation s)) es))
           = \<lparr>valid = False, reason = Some ''Challenge not found or expired'',
              timingValid = None, executionTime = Undefined, solveTime = None\<rparr>"
proof -
  let ?new = "\<lparr>expectedAnswer = (case operation of Plus \<Rightarrow> a + b | Times \<Rightarrow> a * b
                                   | Minus \<Rightarrow> a - b),
               timestamp = now, issuerIp = ip\<rparr>"
  let ?stored = "AList.update cid' ?new (challenges s)"
  from assms(1,3) have "map_of ?stored cid = Some c"
    by (simp add: update_conv')
  then have "(cid, c) \<in> set ?stored"
    by (rule map_of_SomeD)
  with assms(2) have "map_of (sweepChallenges now ?stored ?stored) cid = None"
    by (intro sweep_removes_expired) (simp_all add: CHALLENGE_TTL_def)
  then have "map_of (challenges (snd (getChallenge ip now cid' a b operation s))) cid = None"
    by (simp add: getChallenge_def Let_def)
  from verify_absent [OF run_keeps_absent [OF this assms(4)] assms(5)]
  show ?thesis by (simp add: notFoundReply_def)
qed

text \<open>
  The witness: the same challenge, a second challenge issued at time 62000, and then the
  verify.
\<close>

theorem expired_after_sweep_witness:
  "map_of (challenges (snd (getChallenge ''203.0.113.7'' 1000 ''k3x9q2m7p1abc'' 7 13 Plus initial)))
       ''k3x9q2m7p1abc''
     = Some \<lparr>expectedAnswer = 20, timestamp = 1000, issuerIp = ''203.0.113.7''\<rparr>
   \<and> fst (postChallengeVerify ''203.0.113.7'' 62500
       \<lparr>challengeId = Val ''k3x9q2m7p1abc'', answer = Val 20, timingProof = Val 1000,
        executionTime = Val 15\<rparr>
       (run exampleFmt
          (snd (getChallenge ''198.51.100.2'' 62000 ''q8w2e4r6t0yui'' 3 4 Times
             (snd (getChallenge ''203.0.113.7'' 1000 ''k3x9q2m7p1abc'' 7 13 Plus initial))))
          []))
     = \<lparr>valid = False, reason = Some ''Challenge not found or expired'',
        timingValid = None, executionTime = Undefined, solveTime = None\<rparr>"
proof -
  have stored: "map_of (challenges
        (snd (getChallenge ''203.0.113.7'' 1000 ''k3x9q2m7p1abc'' 7 13 Plus initial)))
       ''k3x9q2m7p1abc''
     = Some \<lparr>expectedAnswer = 20, timestamp = 1000, issuerIp = ''203.0.113.7''\<rparr>"
    by code_simp
  from expired_after_sweep [OF stored, of 62000 "''q8w2e4r6t0yui''" "[]"
      "\<lparr>challengeId = Val ''k3x9q2m7p1abc'', answer = Val 20, timingProof = Val 1000,
        executionTime = Val 15\<rparr>"]
  show ?thesis using stored by simp
qed

section \<open>Visit Tracker: the timeout verdict\<close>

lemma log_clearTimeout [simp]: "log (clearTimeout t s) = log s"
  and pageVisits_clearTimeout [simp]: "pageVisits (clearTimeout t s) = pageVisits s"
  by (simp_all add: clearTimeout_def)

lemma log_evictVisits [simp]: "log (evictVisits now vs s) = log s"
  by (induction now vs s rule: evictVisits.induct) (auto split: option.splits)

lemma visits_evictVisits:
  "map_of (pageVisits (evictVisits now vs s)) k = None
   \<or> map_of (pageVisits (evictVisits now vs s)) k = map_of (pageVisits s) k"
proof (induction now vs s rule: evictVisits.induct)
  case (1 now s)
  then show ?case by simp
next
  case (2 now visitIp visit rest s)
  show ?case
  proof (cases "now - visit.timestamp visit > 60000")
    case True
    let ?s' = "(case timeoutId visit of Some t \<Rightarrow> clearTimeout t s | None \<Rightarrow> s)
                 \<lparr>pageVisits := AList.delete visitIp (pageVisits s)\<rparr>"
    have "map_of (pageVisits ?s') k = None \<or> map_of (pageVisits ?s') k = map_of (pageVisits s) k"
      by (simp add: delete_conv')
    with "2.IH"(1) [OF True] True show ?thesis by auto
  next
    case False
    with "2.IH"(2) show ?thesis by simp
  qed
qed

lemma log_trackPageVisit [simp]: "log (trackPageVisit ip now s) = log s"
  by (simp add: trackPageVisit_def Let_def split: option.splits)

lemma trackPageVisit_shape:
  "\<exists>s3 nv. trackPageVisit ip now s = evictVisits now (pageVisits s3) s3
     \<and> pageVisits s3 = AList.update ip nv (pageVisits s)
     \<and> \<not> completed nv \<and> \<not> botApiCalled nv \<and> finalVerdict nv = None
     \<and> log s3 = log s"
proof -
  define s1 where "s1 = (case map_of (pageVisits s) ip of
                 Some existingVisit \<Rightarrow>
                   (case timeoutId existingVisit of Some t \<Rightarrow> clearTimeout t s | None \<Rightarrow> s)
               | None \<Rightarrow> s)"
  define nv where "nv = \<lparr>visit.timestamp = now, completed = False, botApiCalled = False,
                  timeoutId = Some (nextTimer s1), finalVerdict = None\<rparr>"
  define s3 where "s3 = s1\<lparr>timers := AList.update (nextTimer s1) ip (timers s1),
                          nextTimer := Suc (nextTimer s1),
                          pageVisits := AList.update ip nv (pageVisits s1)\<rparr>"
  have s1: "pageVisits s1 = pageVisits s" "log s1 = log s"
    by (simp_all add: s1_def split: option.splits)
  have "trackPageVisit ip now s = evictVisits now (pageVisits s3) s3"
    by (simp add: trackPageVisit_def Let_def s1_def nv_def s3_def)
  moreover have "pageVisits s3 = AList.update ip nv (pageVisits s)" "log s3 = log s"
    by (simp_all add: s3_def s1)
  moreover have "\<not> completed nv \<and> \<not> botApiCalled nv \<and> finalVerdict nv = None"
    by (simp add: nv_def)
  ultimately show ?thesis by blast
qed

lemma visits_trackPageVisit:
  assumes "ip' \<noteq> ip"
  shows "map_of (pageVisits (trackPageVisit ip' now s)) ip = None
   \<or> map_of (pageVisits (trackPageVisit ip' now s)) ip = map_of (pageVisits s) ip"
proof -
  from trackPageVisit_shape [of ip' now s] obtain s3 nv where
    t: "trackPageVisit ip' now s = evictVisits now (pageVisits s3) s3"
    and v: "pageVisits s3 = AList.update ip' nv (pageVisits s)"
    by blast
  from assms v have "map_of (pageVisits s3) ip = map_of (pageVisits s) ip"
    by (simp add: update_conv')
  with visits_evictVisits [of now "pageVisits s3" s3 ip] t show ?thesis
    by simp
qed

text \<open>What each operation does to the session of an address.\<close>

lemma deliverable_trackPageVisit:
  "ip' \<noteq> ip \<Longrightarrow> deliverable ip (trackPageVisit ip' now s) \<le> deliverable ip s"
  using visits_trackPageVisit [of ip' ip now s]
  by (auto simp add: deliverable_def split: option.splits)

lemma markBotApiCalled_visits:
  "map_of (pageVisits (markBotApiCalled ip' s)) ip =
     (if ip' = ip then map_option (\<lambda>v. v\<lparr>botApiCalled := True, timeoutId := None\<rparr>)
                          (map_of (pageVisits s) ip)
      else map_of (pageVisits s) ip)"
  by (auto simp add: markBotApiCalled_def update_conv' split: option.splits)

lemma log_markBotApiCalled [simp]: "log (markBotApiCalled ip s) = log s"
  by (simp add: markBotApiCalled_def split: option.splits)

lemma markVisitComplete_visits:
  "map_of (pageVisits (markVisitComplete ip' s)) ip =
     (if ip' = ip then map_option (\<lambda>v. v\<lparr>completed := True\<rparr>) (map_of (pageVisits s) ip)
      else map_of (pageVisits s) ip)"
  by (auto simp add: markVisitComplete_def update_conv' split: option.splits)

lemma log_markVisitComplete [simp]: "log (markVisitComplete ip s) = log s"
  by (simp add: markVisitComplete_def split: option.splits)

lemma deliverBotVerdict_visits:
  "map_of (pageVisits (deliverBotVerdict ip' why s)) ip =
     (if ip' = ip
      then map_option (\<lambda>v. if completed v then v
                           else v\<lparr>completed := True, finalVerdict := Some (timeoutVerdict why)\<rparr>)
             (map_of (pageVisits s) ip)
      else map_of (pageVisits s) ip)"
  by (auto simp add: deliverBotVerdict_def update_conv' split: option.splits)

lemma deliverBotVerdict_log:
  "log (deliverBotVerdict ip' why s) =
     (case map_of (pageVisits s) ip' of
        None \<Rightarrow> log s
      | Some v \<Rightarrow> if completed v then log s
                  else log s @ [BotVerdictLine ip' why (botApiCalled v) (completed v)])"
  by (auto simp add: deliverBotVerdict_def split: option.splits)

lemma potential_timeoutCallback:
  "timeoutVerdicts ip (timeoutCallback ip' s) + deliverable ip (timeoutCallback ip' s)
     \<le> timeoutVerdicts ip s + deliverable ip s"
  by (auto simp add: timeoutCallback_def timeoutVerdicts_def deliverable_def
      deliverBotVerdict_visits deliverBotVerdict_log split: option.splits)

lemma potential_step:
  "\<not> opens ip e \<Longrightarrow>
   timeoutVerdicts ip (step fmt s e) + deliverable ip (step fmt s e)
     \<le> timeoutVerdicts ip s + deliverable ip s"
proof (cases e)
  case (DocumentRequest ip' now)
  assume "\<not> opens ip e"
  with DocumentRequest have "ip' \<noteq> ip" by simp
  from deliverable_trackPageVisit [OF this] DocumentRequest show ?thesis
    by (simp add: timeoutVerdicts_def)
next
  case (GetChallenge ip' now cid a b operation)
  then show ?thesis
    by (simp add: getChallenge_def Let_def timeoutVerdicts_def deliverable_def)
next
  case (PostChallengeVerify ip' now body)
  then show ?thesis
    by (auto simp add: postChallengeVerify_def Let_def timeoutVerdicts_def deliverable_def
        split: option.splits)
next
  case (PostApiBot ip' bd headers)
  then show ?thesis
    by (auto simp add: postApiBot_def Let_def timeoutVerdicts_def deliverable_def
        markBotApiCalled_visits markVisitComplete_visits split: option.splits)
next
  case (GetVisitStatus ip' now)
  then show ?thesis
    by (simp add: getVisitStatus_def Let_def timeoutVerdicts_def deliverable_def)
next
  case (TimerFires t)
  have "timeoutVerdicts ip (clearTimeout t s) = timeoutVerdicts ip s"
    "deliverable ip (clearTimeout t s) = deliverable ip s"
    by (simp_all add: timeoutVerdicts_def deliverable_def)
  with potential_timeoutCallback [of ip _ "clearTimeout t s"] TimerFires show ?thesis
    by (auto simp add: timerFires_def split: option.splits)
qed

lemma potential_run:
  "\<forall>e \<in> set es. \<not> opens ip e \<Longrightarrow>
   timeoutVerdicts ip (run fmt s es) + deliverable ip (run fmt s es)
     \<le> timeoutVerdicts ip s + deliverable ip s"
  unfolding run_def
proof (induction es arbitrary: s)
  case Nil
  then show ?case by simp
next
  case (Cons e es)
  from Cons.prems have e: "\<not> opens ip e" and es: "\<forall>e \<in> set es. \<not> opens ip e" by simp_all
  from Cons.IH [OF es, of "step fmt s e"] potential_step [OF e, of fmt s]
  show ?case by simp
qed


lemma log_step_grows: "\<exists>ls. log (step fmt s e) = log s @ ls"
proof (cases e)
  case (TimerFires t)
  then show ?thesis
    by (auto simp add: timerFires_def timeoutCallback_def deliverBotVerdict_log
        split: option.splits)
qed (auto simp add: getChallenge_def postChallengeVerify_def postApiBot_def getVisitStatus_def
      Let_def split: option.splits)

lemma timeoutVerdicts_step_mono: "timeoutVerdicts ip s \<le> timeoutVerdicts ip (step fmt s e)"
  using log_step_grows [of fmt s e] by (auto simp add: timeoutVerdicts_def)

lemma timeoutVerdicts_run_mono: "timeoutVerdicts ip s \<le> timeoutVerdicts ip (run fmt s es)"
  unfolding run_def
proof (induction es arbitrary: s)
  case Nil
  then show ?case by simp
next
  case (Cons e es)
  from Cons.IH [of "step fmt s e"] timeoutVerdicts_step_mono [of ip s fmt e]
  show ?case by simp
qed

lemma deliverable_le_1: "deliverable ip s \<le> 1"
  by (simp add: deliverable_def split: option.splits)

lemma deliverable_markBotApiCalled: "deliverable ip (markBotApiCalled ip s) = 0"
  by (simp add: deliverable_def markBotApiCalled_visits split: option.splits)

text \<open>
  C7. For every session, the frozen timeout verdict (code 1006) is produced at most once,
  and never after \<open>markBotApiCalled\<close> has run for its IP. A session lasts until a
  document request from the same IP replaces it, so the runs considered are those
  without such a request; \<open>timeoutVerdicts\<close> counts the \<open>[bot-verdict]\<close> lines that
  \<open>deliverBotVerdict\<close> prints when it freezes the verdict.
\<close>

theorem timeout_verdict_once:
  assumes "\<forall>e \<in> set es. \<not> opens ip e"
  shows "timeoutVerdicts ip (run fmt s es) \<le> timeoutVerdicts ip s + 1
         \<and> timeoutVerdicts ip (run fmt (markBotApiCalled ip s) es)
             = timeoutVerdicts ip (markBotApiCalled ip s)"
proof
  from potential_run [OF assms, of fmt s] deliverable_le_1 [of ip s]
  show "timeoutVerdicts ip (run fmt s es) \<le> timeoutVerdicts ip s + 1"
    by linarith
next
  from potential_run [OF assms, of fmt "markBotApiCalled ip s"]
    deliverable_markBotApiCalled [of ip s]
    timeoutVerdicts_run_mono [of ip "markBotApiCalled ip s" fmt es]
  show "timeoutVerdicts ip (run fmt (markBotApiCalled ip s) es)
          = timeoutVerdicts ip (markBotApiCalled ip s)"
    by linarith
qed

text \<open>
  The witness: a session whose timer goes off, a status query, and the same timer
  handle once more; and the same run after \<open>markBotApiCalled\<close>.
\<close>

theorem timeout_verdict_once_witness:
  "timeoutVerdicts ''203.0.113.7''
      (run exampleFmt (trackPageVisit ''203.0.113.7'' 0 initial)
         [TimerFires 0, GetVisitStatus ''203.0.113.7'' 6000, TimerFires 0]) = 1
   \<and> timeoutVerdicts ''203.0.113.7''
      (run exampleFmt (markBotApiCalled ''203.0.113.7'' (trackPageVisit ''203.0.113.7'' 0 initial))
         [TimerFires 0, GetVisitStatus ''203.0.113.7'' 6000, TimerFires 0])
     = timeoutVerdicts ''203.0.113.7''
         (markBotApiCalled ''203.0.113.7'' (trackPageVisit ''203.0.113.7'' 0 initial))"
proof -
  have "\<forall>e \<in> set [TimerFires 0, GetVisitStatus ''203.0.113.7'' 6000, TimerFires 0].
          \<not> opens ''203.0.113.7'' e"
    by simp
  from timeout_verdict_once [OF this]
  have "timeoutVerdicts ''203.0.113.7''
      (run exampleFmt (markBotApiCalled ''203.0.113.7'' (trackPageVisit ''203.0.113.7'' 0 initial))
         [TimerFires 0, GetVisitStatus ''203.0.113.7'' 6000, TimerFires 0])
     = timeoutVerdicts ''203.0.113.7''
         (markBotApiCalled ''203.0.113.7'' (trackPageVisit ''203.0.113.7'' 0 initial))"
    by blast
  moreover have "timeoutVerdicts ''203.0.113.7''
      (run exampleFmt (trackPageVisit ''203.0.113.7'' 0 initial)
         [TimerFires 0, GetVisitStatus ''203.0.113.7'' 6000, TimerFires 0]) = 1"
    by code_simp
  ultimately show ?thesis by simp
qed

section \<open>Visit Tracker: the status after the deadline\<close>

lemma frozenOrOpen_evictVisits:
  "frozenOrOpen s \<Longrightarrow> frozenOrOpen (evictVisits now vs s)"
  unfolding frozenOrOpen_def
  using visits_evictVisits [of now vs s] by (metis option.distinct(1))

lemma frozenOrOpen_trackPageVisit:
  assumes "frozenOrOpen s"
  shows "frozenOrOpen (trackPageVisit ip now s)"
proof -
  from trackPageVisit_shape [of ip now s] obtain s3 nv where
    t: "trackPageVisit ip now s = evictVisits now (pageVisits s3) s3"
    and v: "pageVisits s3 = AList.update ip nv (pageVisits s)"
    and nv: "\<not> completed nv"
    by blast
  from assms v nv have "frozenOrOpen s3"
    by (auto simp add: frozenOrOpen_def update_conv')
  with t show ?thesis by (simp add: frozenOrOpen_evictVisits)
qed

lemma frozenOrOpen_step: "frozenOrOpen s \<Longrightarrow> frozenOrOpen (step fmt s e)"
proof (cases e)
  case (DocumentRequest ip now)
  assume "frozenOrOpen s"
  with DocumentRequest show ?thesis by (simp add: frozenOrOpen_trackPageVisit)
next
  case (GetChallenge ip now cid a b operation)
  assume "frozenOrOpen s"
  with GetChallenge show ?thesis by (simp add: frozenOrOpen_def getChallenge_def Let_def)
next
  case (PostChallengeVerify ip now body)
  assume "frozenOrOpen s"
  with PostChallengeVerify show ?thesis
    by (auto simp add: frozenOrOpen_def postChallengeVerify_def Let_def split: option.splits)
next
  case (PostApiBot ip bd headers)
  assume "frozenOrOpen s"
  with PostApiBot show ?thesis
    by (auto simp add: frozenOrOpen_def postApiBot_def Let_def markBotApiCalled_visits
        markVisitComplete_visits split: if_splits)
next
  case (GetVisitStatus ip now)
  assume "frozenOrOpen s"
  with GetVisitStatus show ?thesis by (simp add: frozenOrOpen_def getVisitStatus_def Let_def)
next
  case (TimerFires t)
  assume "frozenOrOpen s"
  with TimerFires show ?thesis
    by (auto simp add: frozenOrOpen_def timerFires_def timeoutCallback_def
        deliverBotVerdict_visits noJsReason_def split: option.splits if_splits)
qed

lemma frozenOrOpen_run: "frozenOrOpen s \<Longrightarrow> frozenOrOpen (run fmt s es)"
  unfolding run_def by (induction es arbitrary: s) (auto simp add: frozenOrOpen_step)

lemma frozenOrOpen_initial: "frozenOrOpen initial"
  by (simp add: frozenOrOpen_def initial_def)

text \<open>
  The keys of \<open>pageVisits\<close> stay distinct, so the entry that the clean-up loop meets
  for an address is the session tracked for it.
\<close>

lemma distinctVisits_evictVisits:
  "distinctVisits s \<Longrightarrow> distinctVisits (evictVisits now vs s)"
proof (induction now vs s rule: evictVisits.induct)
  case (1 now s)
  then show ?case by simp
next
  case (2 now visitIp visit rest s)
  show ?case
  proof (cases "now - visit.timestamp visit > 60000")
    case True
    let ?s' = "(case timeoutId visit of Some t \<Rightarrow> clearTimeout t s | None \<Rightarrow> s)
                 \<lparr>pageVisits := AList.delete visitIp (pageVisits s)\<rparr>"
    from "2.prems" have "distinctVisits ?s'"
      by (simp add: distinctVisits_def distinct_delete)
    with "2.IH"(1) [OF True] True show ?thesis by simp
  next
    case False
    with "2.IH"(2) "2.prems" show ?thesis by simp
  qed
qed

lemma distinctVisits_trackPageVisit:
  assumes "distinctVisits s"
  shows "distinctVisits (trackPageVisit ip now s)"
proof -
  from trackPageVisit_shape [of ip now s] obtain s3 nv where
    t: "trackPageVisit ip now s = evictVisits now (pageVisits s3) s3"
    and v: "pageVisits s3 = AList.update ip nv (pageVisits s)"
    by blast
  from assms v have "distinctVisits s3"
    by (simp add: distinctVisits_def distinct_update)
  with t show ?thesis by (simp add: distinctVisits_evictVisits)
qed

lemma distinctVisits_step: "distinctVisits s \<Longrightarrow> distinctVisits (step fmt s e)"
proof (cases e)
  case (DocumentRequest ip now)
  assume "distinctVisits s"
  with DocumentRequest show ?thesis by (simp add: distinctVisits_trackPageVisit)
next
  case (GetChallenge ip now cid a b operation)
  assume "distinctVisits s"
  with GetChallenge show ?thesis by (simp add: distinctVisits_def getChallenge_def Let_def)
next
  case (PostChallengeVerify ip now body)
  assume "distinctVisits s"
  with PostChallengeVerify show ?thesis
    by (auto simp add: distinctVisits_def postChallengeVerify_def Let_def split: option.splits)
next
  case (PostApiBot ip bd headers)
  assume "distinctVisits s"
  with PostApiBot show ?thesis
    by (auto simp add: distinctVisits_def postApiBot_def Let_def markBotApiCalled_def
        markVisitComplete_def distinct_update split: option.splits if_splits)
next
  case (GetVisitStatus ip now)
  assume "distinctVisits s"
  with GetVisitStatus show ?thesis by (simp add: distinctVisits_def getVisitStatus_def Let_def)
next
  case (TimerFires t)
  assume "distinctVisits s"
  with TimerFires show ?thesis
    by (auto simp add: distinctVisits_def timerFires_def timeoutCallback_def
        deliverBotVerdict_def distinct_update split: option.splits if_splits)
qed

lemma distinctVisits_run: "distinctVisits s \<Longrightarrow> distinctVisits (run fmt s es)"
  unfolding run_def by (induction es arbitrary: s) (auto simp add: distinctVisits_step)

lemma distinctVisits_initial: "distinctVisits initial"
  by (simp add: distinctVisits_def initial_def)

lemma distinctVisits_timerFires: "distinctVisits s \<Longrightarrow> distinctVisits (timerFires t s)"
  using distinctVisits_step [of s fmt "TimerFires t"] by simp

text \<open>
  The clean-up loop leaves an address alone when none of the entries it meets for that
  address is older than 60 seconds.
\<close>

lemma evictVisits_keeps:
  "\<forall>v'. (k, v') \<in> set vs \<longrightarrow> \<not> now - visit.timestamp v' > 60000 \<Longrightarrow>
   map_of (pageVisits (evictVisits now vs s)) k = map_of (pageVisits s) k"
proof (induction now vs s rule: evictVisits.induct)
  case (1 now s)
  then show ?case by simp
next
  case (2 now visitIp visit rest s)
  from "2.prems" have rest: "\<forall>v'. (k, v') \<in> set rest \<longrightarrow> \<not> now - visit.timestamp v' > 60000"
    by simp
  show ?case
  proof (cases "now - visit.timestamp visit > 60000")
    case True
    let ?s' = "(case timeoutId visit of Some t \<Rightarrow> clearTimeout t s | None \<Rightarrow> s)
                 \<lparr>pageVisits := AList.delete visitIp (pageVisits s)\<rparr>"
    from True "2.prems" have "visitIp \<noteq> k" by auto
    then have "map_of (pageVisits ?s') k = map_of (pageVisits s) k"
      by (simp add: delete_conv')
    with "2.IH"(1) [OF True rest] True show ?thesis by simp
  next
    case False
    with "2.IH"(2) [OF False rest] show ?thesis by simp
  qed
qed

lemma kept_trackPageVisit:
  assumes "distinctVisits s" and "map_of (pageVisits s) ip = Some v"
    and "ip' \<noteq> ip" and "\<not> now - visit.timestamp v > 60000"
  shows "map_of (pageVisits (trackPageVisit ip' now s)) ip = Some v"
proof -
  from trackPageVisit_shape [of ip' now s] obtain s3 nv where
    t: "trackPageVisit ip' now s = evictVisits now (pageVisits s3) s3"
    and v: "pageVisits s3 = AList.update ip' nv (pageVisits s)"
    by blast
  from assms(1) v have d: "distinct (map fst (pageVisits s3))"
    by (simp add: distinctVisits_def distinct_update)
  from assms(2,3) v have m: "map_of (pageVisits s3) ip = Some v"
    by (simp add: update_conv')
  have "\<forall>v'. (ip, v') \<in> set (pageVisits s3) \<longrightarrow> \<not> now - visit.timestamp v' > 60000"
  proof (intro allI impI)
    fix v' assume "(ip, v') \<in> set (pageVisits s3)"
    with d have "map_of (pageVisits s3) ip = Some v'" by simp
    with m have "v' = v" by simp
    with assms(4) show "\<not> now - visit.timestamp v' > 60000" by simp
  qed
  from evictVisits_keeps [OF this, of s3] t m show ?thesis by simp
qed

lemma frozenAt_step:
  assumes "frozenAt ip ts s" and "distinctVisits s"
    and "\<not> opens ip e" and "\<not> evicts ts e"
  shows "frozenAt ip ts (step fmt s e)"
proof (cases e)
  case (DocumentRequest ip' now)
  from assms(1) obtain v where v: "map_of (pageVisits s) ip = Some v"
    and f: "finalVerdict v = Some (timeoutVerdict noJsReason)" "visit.timestamp v = ts"
    by (auto simp add: frozenAt_def split: option.splits)
  from assms(3,4) DocumentRequest f have "ip' \<noteq> ip" "\<not> now - visit.timestamp v > 60000"
    by simp_all
  from kept_trackPageVisit [OF assms(2) v this] f DocumentRequest show ?thesis
    by (simp add: frozenAt_def)
next
  case (PostApiBot ip' bd headers)
  with assms(1) show ?thesis
    by (auto simp add: frozenAt_def postApiBot_def Let_def markBotApiCalled_visits
        markVisitComplete_visits split: option.splits if_splits)
next
  case (TimerFires t)
  with assms(1) show ?thesis
    by (auto simp add: frozenAt_def timerFires_def timeoutCallback_def
        deliverBotVerdict_visits noJsReason_def split: option.splits if_splits)
next
  case (GetChallenge ip' now cid a b operation)
  with assms(1) show ?thesis by (simp add: frozenAt_def getChallenge_def Let_def)
next
  case (PostChallengeVerify ip' now body)
  with assms(1) show ?thesis
    by (auto simp add: frozenAt_def postChallengeVerify_def Let_def split: option.splits)
next
  case (GetVisitStatus ip' now)
  with assms(1) show ?thesis by (simp add: frozenAt_def getVisitStatus_def Let_def)
qed

lemma frozenAt_run:
  "frozenAt ip ts s \<Longrightarrow> distinctVisits s \<Longrightarrow>
   \<forall>e \<in> set es. \<not> opens ip e \<and> \<not> evicts ts e \<Longrightarrow> frozenAt ip ts (run fmt s es)"
  unfolding run_def
  by (induction es arbitrary: s) (auto simp add: frozenAt_step distinctVisits_step)

lemma frozenAt_timerFires:
  assumes "frozenOrOpen s" and "map_of (timers s) t = Some ip"
    and "map_of (pageVisits s) ip = Some v" and "\<not> botApiCalled v"
  shows "frozenAt ip (visit.timestamp v) (timerFires t s)"
  using assms
  by (auto simp add: frozenAt_def frozenOrOpen_def timerFires_def timeoutCallback_def
      deliverBotVerdict_visits noJsReason_def)

text \<open>
  C5, as stated, fails: once the deadline has fired, \<open>getVisitVerdict\<close> returns the
  frozen verdict, whose reason is the one the timer passed, not the object
  \<open>{verdict: 'bot', code: 1006, reason: 'Never called /api/bot - no JS execution'}\<close>.
  The run is the second scenario of the specification: a document request, nothing
  else, the timer, and a status query at 6 seconds.
\<close>

theorem deadline_status_is_frozen_verdict:
  "fst (getVisitStatus ''203.0.113.7'' 6000
         (run exampleFmt initial [DocumentRequest ''203.0.113.7'' 0, TimerFires 0]))
   \<noteq> Plain ''bot'' (Some 1006) ''Never called /api/bot - no JS execution''"
  by code_simp

text \<open>
  C5, amended. For every session whose deadline has fired with \<open>botApiCalled\<close> still
  false, a later \<open>GET /api/visit-status\<close> for that IP returns the frozen verdict:
  verdict \<open>bot\<close>, score 100, code 1006, reason \<open>Fetched page but never called
  /api/bot within 5 seconds (no JS execution)\<close>, with the single signal
  \<open>noJsExecution\<close>. This holds as long as the session is tracked, that is, over every
  run in which no document request replaces it (one from the same IP) or evicts it (one
  arriving, from any IP, more than 60 seconds after the session was opened). Document
  requests from other addresses within the 60 seconds, and every other request and
  timer, leave the verdict in place.
\<close>

theorem status_after_deadline:
  assumes "map_of (timers (run fmt initial es0)) t = Some ip"
    and "map_of (pageVisits (run fmt initial es0)) ip = Some v"
    and "\<not> botApiCalled v"
    and "\<forall>e \<in> set es. \<not> opens ip e \<and> \<not> evicts (visit.timestamp v) e"
  shows "fst (getVisitStatus ip now (run fmt (timerFires t (run fmt initial es0)) es))
           = Final \<lparr>verdict = ''bot'', score = 100, maxScore = 100, code = Some 1006,
               confidence = ''high'',
               reason = Some ''Fetched page but never called /api/bot within 5 seconds (no JS execution)'',
               signals = [\<lparr>name = ''noJsExecution'', detected = True, weight = 100,
                  reason = ''Fetched page but never called /api/bot within 5 seconds (no JS execution)'',
                  category = Some ''automation''\<rparr>],
               allSignals = [\<lparr>name = ''noJsExecution'', detected = True, weight = 100,
                  reason = ''Fetched page but never called /api/bot within 5 seconds (no JS execution)'',
                  category = Some ''automation''\<rparr>],
               signalsByCategory = Some [(''automation'',
                 [\<lparr>name = ''noJsExecution'', detected = True, weight = 100,
                   reason = ''Fetched page but never called /api/bot within 5 seconds (no JS execution)'',
                   category = Some ''automation''\<rparr>])],
               summary = \<lparr>totalChecks = 1, flagged = 1, passed = 0\<rparr>\<rparr>"
proof -
  have o: "frozenOrOpen (run fmt initial es0)"
    by (rule frozenOrOpen_run [OF frozenOrOpen_initial])
  have d: "distinctVisits (timerFires t (run fmt initial es0))"
    by (rule distinctVisits_timerFires [OF distinctVisits_run [OF distinctVisits_initial]])
  from frozenAt_run [where fmt = fmt, OF frozenAt_timerFires [OF o assms(1,2,3)] d assms(4)]
  show ?thesis
    by (auto simp add: frozenAt_def getVisitStatus_def getVisitVerdict_def Let_def
        timeoutVerdict_def noJsReason_def split: option.splits)
qed

text \<open>
  The witness: the session is opened, its timer goes off, a page is loaded from another
  address at 6 seconds, the analysis endpoint is called too late, and the status is
  asked at 7 seconds.
\<close>

theorem status_after_deadline_witness:
  "map_of (timers (run exampleFmt initial [DocumentRequest ''203.0.113.7'' 0])) 0
     = Some ''203.0.113.7''
   \<and> fst (getVisitStatus ''203.0.113.7'' 7000
        (run exampleFmt (timerFires 0 (run exampleFmt initial [DocumentRequest ''203.0.113.7'' 0]))
           [DocumentRequest ''198.51.100.2'' 6000,
            PostApiBot ''203.0.113.7'' emptyBundle Map.empty]))
     = Final (timeoutVerdict noJsReason)"
proof -
  have t: "map_of (timers (run exampleFmt initial [DocumentRequest ''203.0.113.7'' 0])) 0
     = Some ''203.0.113.7''"
    by code_simp
  have v: "map_of (pageVisits (run exampleFmt initial [DocumentRequest ''203.0.113.7'' 0]))
       ''203.0.113.7''
     = Some \<lparr>visit.timestamp = 0, completed = False, botApiCalled = False, timeoutId = Some 0,
             finalVerdict = None\<rparr>"
    by code_simp
  have es: "\<forall>e \<in> set [DocumentRequest ''198.51.100.2'' 6000,
                        PostApiBot ''203.0.113.7'' emptyBundle Map.empty].
              \<not> opens ''203.0.113.7'' e
              \<and> \<not> evicts (visit.timestamp \<lparr>visit.timestamp = 0, completed = False,
                     botApiCalled = False, timeoutId = Some 0, finalVerdict = None\<rparr>) e"
    by simp
  from status_after_deadline [OF t v _ es, of 7000] t show ?thesis
    by (simp add: timeoutVerdict_def noJsReason_def Let_def)
qed

section \<open>The early rejection and the session\<close>

text \<open>
  C4, as stated, fails: the early rejection returns before \<open>markVisitComplete\<close> is
  called. After a document request and a \<open>POST /api/bot\<close> with the body \<open>{}\<close>, the
  session has \<open>botApiCalled\<close> true and \<open>completed\<close> still false.
\<close>

theorem early_reject_leaves_session_open:
  "map_of (pageVisits (run exampleFmt initial
      [DocumentRequest ''203.0.113.7'' 0, PostApiBot ''203.0.113.7'' emptyBundle Map.empty]))
     ''203.0.113.7''
   = Some \<lparr>visit.timestamp = 0, completed = False, botApiCalled = True, timeoutId = None,
           finalVerdict = None\<rparr>"
  by code_simp

lemma timers_markBotApiCalled:
  "timers (markBotApiCalled ip s) =
     (case map_of (pageVisits s) ip of
        None \<Rightarrow> timers s
      | Some v \<Rightarrow> (case timeoutId v of Some t \<Rightarrow> AList.delete t (timers s) | None \<Rightarrow> timers s))"
  by (simp add: markBotApiCalled_def clearTimeout_def split: option.splits)

text \<open>
  C4, amended. For every \<open>POST /api/bot\<close> that takes the early-reject path while a
  session is tracked for the caller's IP, by the time the response is sent that session
  has \<open>botApiCalled\<close> true and its timer cleared, and its \<open>completed\<close> flag is what it
  was before the request. The timer is cleared in the session (\<open>timeoutId\<close> is
  \<open>null\<close>) and in the runtime: the timer the session held is no longer armed, so it
  cannot fire, and every other timer is left as it was.
\<close>

theorem early_reject_session:
  assumes "\<not> hasEssentialData_of bd \<or> \<not> hasJsChallenge_of bd"
    and "map_of (pageVisits s) ip = Some v"
  shows "map_of (pageVisits (snd (postApiBot fmt ip bd headers s))) ip
           = Some (v\<lparr>botApiCalled := True, timeoutId := None\<rparr>)
         \<and> code (fst (postApiBot fmt ip bd headers s)) = Some 1005
         \<and> (case timeoutId v of
               Some t \<Rightarrow>
                 timers (snd (postApiBot fmt ip bd headers s)) = AList.delete t (timers s)
                 \<and> map_of (timers (snd (postApiBot fmt ip bd headers s))) t = None
             | None \<Rightarrow> timers (snd (postApiBot fmt ip bd headers s)) = timers s)"
  using assms
  by (auto simp add: postApiBot_def Let_def markBotApiCalled_visits rejectVerdict_def
      timers_markBotApiCalled delete_conv' split: option.splits)

text \<open>
  The witness: a session, whose timer 0 is armed, then a body with everything but the
  challenge outcome. Afterwards no timer is armed.
\<close>

theorem early_reject_session_witness:
  "\<not> hasJsChallenge_of (exampleBundle\<lparr>jsChallenge := None\<rparr>)
   \<and> map_of (pageVisits (snd (postApiBot exampleFmt ''203.0.113.7''
         (exampleBundle\<lparr>jsChallenge := None\<rparr>) Map.empty
         (trackPageVisit ''203.0.113.7'' 0 initial)))) ''203.0.113.7''
     = Some \<lparr>visit.timestamp = 0, completed = False, botApiCalled = True, timeoutId = None,
             finalVerdict = None\<rparr>
   \<and> timers (trackPageVisit ''203.0.113.7'' 0 initial) = [(0, ''203.0.113.7'')]
   \<and> timers (snd (postApiBot exampleFmt ''203.0.113.7''
         (exampleBundle\<lparr>jsChallenge := None\<rparr>) Map.empty
         (trackPageVisit ''203.0.113.7'' 0 initial))) = []"
proof -
  have h: "\<not> hasJsChallenge_of (exampleBundle\<lparr>jsChallenge := None\<rparr>)"
    by (simp add: hasJsChallenge_of_def getf_def isTrue_def)
  have v: "map_of (pageVisits (trackPageVisit ''203.0.113.7'' 0 initial)) ''203.0.113.7''
     = Some \<lparr>visit.timestamp = 0, completed = False, botApiCalled = False, timeoutId = Some 0,
             finalVerdict = None\<rparr>"
    by code_simp
  have t: "timers (trackPageVisit ''203.0.113.7'' 0 initial) = [(0, ''203.0.113.7'')]"
    by code_simp
  from early_reject_session [OF disjI2 [OF h] v, of exampleFmt Map.empty] h t
  show ?thesis by simp
qed

section \<open>The bot patterns of the Signal Evaluator\<close>

text \<open>Every step only appends to the list of signals.\<close>

lemma grows_addSignal: "\<forall>st. set (fst st) \<subseteq> set (fst (addSignal nm det w p q c st))"
  by (auto simp add: addSignal_def)

lemmas grow_steps = all_Nil all_Cons all_append all_if grows_addSignal

lemma criticalSteps_grow:
  "list_all (\<lambda>f. \<forall>st. set (fst st) \<subseteq> set (fst (f st))) (criticalSteps bd)"
  unfolding criticalSteps_def Let_def by (intro grow_steps)
lemma essentialSteps_grow:
  "list_all (\<lambda>f. \<forall>st. set (fst st) \<subseteq> set (fst (f st))) (essentialSteps bd)"
  unfolding essentialSteps_def Let_def by (intro grow_steps)
lemma strongSteps_grow:
  "list_all (\<lambda>f. \<forall>st. set (fst st) \<subseteq> set (fst (f st))) (strongSteps bd)"
  unfolding strongSteps_def Let_def by (intro grow_steps)
lemma mediumSteps_grow:
  "list_all (\<lambda>f. \<forall>st. set (fst st) \<subseteq> set (fst (f st))) (mediumSteps bd)"
  unfolding mediumSteps_def Let_def by (intro grow_steps)
lemma weakSteps_grow:
  "list_all (\<lambda>f. \<forall>st. set (fst st) \<subseteq> set (fst (f st))) (weakSteps fmt bd)"
  unfolding weakSteps_def Let_def by (intro grow_steps)
lemma headerBasedSteps_grow:
  "list_all (\<lambda>f. \<forall>st. set (fst st) \<subseteq> set (fst (f st))) (headerBasedSteps bd headers)"
  unfolding headerBasedSteps_def Let_def by (intro grow_steps)
lemma consistencySteps_grow:
  "list_all (\<lambda>f. \<forall>st. set (fst st) \<subseteq> set (fst (f st))) (consistencySteps bd headers)"
  unfolding consistencySteps_def Let_def by (intro grow_steps)
lemma fingerprintSteps_grow:
  "list_all (\<lambda>f. \<forall>st. set (fst st) \<subseteq> set (fst (f st))) (fingerprintSteps bd)"
  unfolding fingerprintSteps_def Let_def by (intro grow_steps)

lemma foldl_grows:
  "list_all (\<lambda>f. \<forall>st. set (fst st) \<subseteq> set (fst (f st))) steps \<Longrightarrow>
   set (fst st0) \<subseteq> set (fst (foldl (\<lambda>st step. step st) st0 steps))"
proof (induction steps arbitrary: st0)
  case Nil
  then show ?case by simp
next
  case (Cons f fs)
  from Cons.prems have "set (fst st0) \<subseteq> set (fst (f st0))"
    and "list_all (\<lambda>f. \<forall>st. set (fst st) \<subseteq> set (fst (f st))) fs"
    by (simp_all del: split_paired_All)
  with Cons.IH [of "f st0"] show ?case by auto
qed

text \<open>A signal that one step pushes is in the final list.\<close>

lemma foldl_pushes:
  assumes "list_all (\<lambda>f. \<forall>st. set (fst st) \<subseteq> set (fst (f st))) post"
  shows "\<lparr>name = nm, detected = det, weight = w, reason = (if det then q else p),
          category = Some c\<rparr>
         \<in> set (fst (foldl (\<lambda>st step. step st) st0 (pre @ addSignal nm det w p q c # post)))"
proof -
  let ?st1 = "foldl (\<lambda>st step. step st) st0 pre"
  let ?x = "\<lparr>name = nm, detected = det, weight = w, reason = (if det then q else p),
            category = Some c\<rparr>"
  have "?x \<in> set (fst (addSignal nm det w p q c ?st1))"
    by (simp add: addSignal_def)
  with foldl_grows [OF assms, of "addSignal nm det w p q c ?st1"]
  show ?thesis
    by auto
qed

text \<open>The signal that the bot-pattern rule of the Signal Evaluator pushes.\<close>

lemma botUserAgent_pushed:
  "\<lparr>name = ''botUserAgent'',
    detected = (find (\<lambda>p. str_includes (toLowerCase (headerUA_of headers)) p) botPatterns \<noteq> None),
    weight = 25,
    reason = (if find (\<lambda>p. str_includes (toLowerCase (headerUA_of headers)) p) botPatterns \<noteq> None
              then ''Bot-like User-Agent pattern: ''
                   @ strPattern (find (\<lambda>p. str_includes (toLowerCase (headerUA_of headers)) p) botPatterns)
              else ''User-Agent appears legitimate''),
    category = Some ''headers''\<rparr>
   \<in> set (allSignals (analyzeBotSignals fmt bd headers))"
proof -
  let ?m = "find (\<lambda>p. str_includes (toLowerCase (headerUA_of headers)) p) botPatterns"
  obtain pre post where steps: "signalSteps fmt bd headers
      = pre @ addSignal ''botUserAgent'' (?m \<noteq> None) 25 ''User-Agent appears legitimate''
                (''Bot-like User-Agent pattern: '' @ strPattern ?m) ''headers'' # post"
    and post: "list_all (\<lambda>f. \<forall>st. set (fst st) \<subseteq> set (fst (f st))) post"
  proof
    show "signalSteps fmt bd headers
      = (criticalSteps bd @ essentialSteps bd @ strongSteps bd @ mediumSteps bd @ weakSteps fmt bd
          @ take 2 (headerBasedSteps bd headers))
        @ addSignal ''botUserAgent'' (?m \<noteq> None) 25 ''User-Agent appears legitimate''
                (''Bot-like User-Agent pattern: '' @ strPattern ?m) ''headers''
        # (drop 3 (headerBasedSteps bd headers) @ consistencySteps bd headers @ fingerprintSteps bd)"
      by (simp add: signalSteps_def headerBasedSteps_def Let_def)
    have "list_all (\<lambda>f. \<forall>st. set (fst st) \<subseteq> set (fst (f st))) (drop 3 (headerBasedSteps bd headers))"
      using headerBasedSteps_grow [of bd headers]
      unfolding list_all_iff by (meson in_set_dropD)
    then show "list_all (\<lambda>f. \<forall>st. set (fst st) \<subseteq> set (fst (f st)))
      (drop 3 (headerBasedSteps bd headers) @ consistencySteps bd headers @ fingerprintSteps bd)"
      using consistencySteps_grow fingerprintSteps_grow by simp
  qed
  have "allSignals (analyzeBotSignals fmt bd headers)
          = fst (foldl (\<lambda>st step. step st) ([], 0) (signalSteps fmt bd headers))"
    by (simp add: analyzeBotSignals_def Let_def)
  then show ?thesis
    unfolding steps by (simp only: foldl_pushes [OF post])
qed


text \<open>
  For a user agent that contains one of the fifty patterns of the Signal Evaluator's own
  list, the signal is detected with weight 25, and its reason names the first pattern of
  the list that occurs.
\<close>

lemma botUserAgent_first_match:
  assumes "p \<in> set botPatterns"
    and "str_includes (toLowerCase (headerOrEmpty headers ''user-agent'')) p"
  shows "\<exists>p0. find (\<lambda>p. str_includes (toLowerCase (headerOrEmpty headers ''user-agent'')) p)
                 botPatterns = Some p0
           \<and> \<lparr>name = ''botUserAgent'', detected = True, weight = 25,
               reason = ''Bot-like User-Agent pattern: '' @ p0,
               category = Some ''headers''\<rparr>
             \<in> set (signals (analyzeBotSignals fmt bd headers))"
proof -
  from assms obtain p0 where
    p0: "find (\<lambda>p. str_includes (toLowerCase (headerOrEmpty headers ''user-agent'')) p)
           botPatterns = Some p0"
    by (cases "find (\<lambda>p. str_includes (toLowerCase (headerOrEmpty headers ''user-agent'')) p)
                 botPatterns") (auto simp add: find_None_iff)
  with botUserAgent_pushed [of headers fmt bd]
  have "\<lparr>name = ''botUserAgent'', detected = True, weight = 25,
          reason = ''Bot-like User-Agent pattern: '' @ p0, category = Some ''headers''\<rparr>
        \<in> set (allSignals (analyzeBotSignals fmt bd headers))"
    by (simp add: headerUA_of_def strPattern_def)
  then have "\<lparr>name = ''botUserAgent'', detected = True, weight = 25,
          reason = ''Bot-like User-Agent pattern: '' @ p0, category = Some ''headers''\<rparr>
        \<in> set (signals (analyzeBotSignals fmt bd headers))"
    by (simp add: analyzeBotSignals_def Let_def)
  with p0 show ?thesis by blast
qed

text \<open>
  C6. The claim is about every pattern of the list of section 4.1, \<open>httpie\<close> among
  them. The list of \<open>analyzeBotSignals\<close> stops before \<open>httpie\<close>: for a request with the
  header \<open>User-Agent: HTTPie/3.2.2\<close> and a body that passes the early rejection, the
  Signal Evaluator pushes \<open>botUserAgent\<close> once, not detected, while the Header Evaluator
  detects it on the same header.
\<close>

theorem httpie_not_detected:
  "str_includes (toLowerCase ''HTTPie/3.2.2'') ''httpie''
   \<and> filter (\<lambda>s. name s = ''botUserAgent'')
        (allSignals (analyzeBotSignals exampleFmt exampleBundle
                       [''user-agent'' \<mapsto> ''HTTPie/3.2.2'']))
     = [\<lparr>name = ''botUserAgent'', detected = False, weight = 25,
         reason = ''User-Agent appears legitimate'', category = Some ''headers''\<rparr>]
   \<and> filter (\<lambda>s. name s = ''botUserAgent'')
        (allSignals (analyzeHeadersOnly [''user-agent'' \<mapsto> ''HTTPie/3.2.2'']))
     = [\<lparr>name = ''botUserAgent'', detected = True, weight = 30,
         reason = ''Bot-like User-Agent pattern: httpie'', category = None\<rparr>]"
  by code_simp

end
